theory Spec2Isabelle
  imports Main
begin

section \<open>The OAuth2 callback server (index.js)\<close>

text \<open>
  The server has three routes. \<^verbatim>\<open>/callback\<close> exchanges an authorization code for a
  token pair at the provider, asks the provider for the user's id and stores the tokens
  in the table \<^verbatim>\<open>Tokens\<close> (or, without a pool, in the file \<^verbatim>\<open>tokens.log\<close>);
  \<^verbatim>\<open>/check\<close> tells whether a user has a row; \<^verbatim>\<open>/\<close> is a liveness text.

  The handlers are modelled as functions of the environment variables, the request, the
  state they can change (the module variable \<^verbatim>\<open>dbPool\<close>, the table, the file) and a
  record of what the outside answers during the request. Each returns the response, the
  new state and the list of outside calls it made, in order. Console output is left out.
  A request runs to its end before the next one starts, and \<^verbatim>\<open>initDatabase\<close> has
  finished before the first request: interleavings of requests are not modelled.
\<close>

subsection \<open>JavaScript values\<close>

text \<open>
  What \<^verbatim>\<open>axios\<close> hands over as \<^verbatim>\<open>response.data\<close> is a parsed JSON document (or
  a string). Numbers are the integers, written in decimal (as JavaScript writes the
  integers it represents exactly); an object is the list of its properties, each name
  once, in enumeration order. A string is the list of the bytes of its UTF-8 encoding.
\<close>

datatype jsval =
    JUndefined
  | JNull
  | JBool bool
  | JNum int
  | JStr string
  | JArr "jsval list"
  | JObj "(string \<times> jsval) list"

text \<open>What \<^verbatim>\<open>if (v)\<close>, \<^verbatim>\<open>!v\<close>, \<^verbatim>\<open>v || w\<close> and \<^verbatim>\<open>v && w\<close> test.\<close>

fun truthy :: "jsval \<Rightarrow> bool" where
  "truthy JUndefined = False"
| "truthy JNull = False"
| "truthy (JBool b) = b"
| "truthy (JNum n) = (n \<noteq> 0)"
| "truthy (JStr s) = (s \<noteq> [])"
| "truthy (JArr vs) = True"
| "truthy (JObj ps) = True"

definition js_or :: "jsval \<Rightarrow> jsval \<Rightarrow> jsval" where
  "js_or v w = (if truthy v then v else w)"

text \<open>
  The errors a handler can catch: the rejection of an \<^verbatim>\<open>axios\<close> call (with
  \<^verbatim>\<open>error.response.data\<close> when the provider answered, \<^verbatim>\<open>error.message\<close>, and
  the properties its \<^verbatim>\<open>toJSON()\<close> returns), and the TypeError of a property read
  on \<^verbatim>\<open>null\<close> or \<^verbatim>\<open>undefined\<close>.
\<close>

datatype js_error =
    AxiosError "jsval option" string "(string \<times> jsval) list"
  | TypeError string

definition cannot_read :: "string \<Rightarrow> string \<Rightarrow> js_error" where
  "cannot_read what name =
     TypeError (''Cannot read properties of '' @ what @ '' (reading '' @ [CHR 0x27] @ name
                @ [CHR 0x27] @ '')'')"

text \<open>
  \<^verbatim>\<open>v.name\<close>, for the names the handlers read (\<^verbatim>\<open>access_token\<close>,
  \<^verbatim>\<open>refresh_token\<close>, \<^verbatim>\<open>id\<close>, \<^verbatim>\<open>error\<close>): none of them is a property of a
  string, a number, a boolean or an array.
\<close>

fun js_get :: "jsval \<Rightarrow> string \<Rightarrow> js_error + jsval" where
  "js_get JUndefined name = Inl (cannot_read ''undefined'' name)"
| "js_get JNull name = Inl (cannot_read ''null'' name)"
| "js_get (JObj ps) name = (case map_of ps name of None \<Rightarrow> Inr JUndefined | Some v \<Rightarrow> Inr v)"
| "js_get v name = Inr JUndefined"

subsection \<open>JSON.stringify\<close>

definition hex_digit :: "nat \<Rightarrow> char" where
  "hex_digit n = ''0123456789abcdef'' ! (n mod 16)"

definition json_escape :: "char \<Rightarrow> string" where
  "json_escape c =
     (if c = CHR 0x22 then [CHR 0x5C, CHR 0x22]
      else if c = CHR 0x5C then [CHR 0x5C, CHR 0x5C]
      else if c = CHR 0x08 then [CHR 0x5C, CHR ''b'']
      else if c = CHR 0x0C then [CHR 0x5C, CHR ''f'']
      else if c = CHR 0x0A then [CHR 0x5C, CHR ''n'']
      else if c = CHR 0x0D then [CHR 0x5C, CHR ''r'']
      else if c = CHR 0x09 then [CHR 0x5C, CHR ''t'']
      else if (of_char c :: nat) < 32
        then [CHR 0x5C] @ ''u00'' @ [hex_digit (of_char c div 16), hex_digit (of_char c mod 16)]
      else [c])"

definition json_quote :: "string \<Rightarrow> string" where
  "json_quote s = [CHR 0x22] @ concat (map json_escape s) @ [CHR 0x22]"

fun digits :: "nat \<Rightarrow> string" where
  "digits n =
     (if n < 10 then [''0123456789'' ! n]
      else digits (n div 10) @ [''0123456789'' ! (n mod 10)])"

declare digits.simps [simp del]

definition show_int :: "int \<Rightarrow> string" where
  "show_int i = (if i < 0 then ''-'' @ digits (nat (- i)) else digits (nat i))"

fun join :: "string \<Rightarrow> string list \<Rightarrow> string" where
  "join sep [] = []"
| "join sep [x] = x"
| "join sep (x # y # ys) = x @ sep @ join sep (y # ys)"

text \<open>
  \<^verbatim>\<open>JSON.stringify(v)\<close>; \<open>None\<close> is its result \<^verbatim>\<open>undefined\<close>. A property
  whose value is \<^verbatim>\<open>undefined\<close> is left out of an object; in an array it is
  written \<^verbatim>\<open>null\<close>.
\<close>

fun JSON_stringify :: "jsval \<Rightarrow> string option"
  and stringify_elems :: "jsval list \<Rightarrow> string list"
  and stringify_props :: "(string \<times> jsval) list \<Rightarrow> string list" where
  "JSON_stringify JUndefined = None"
| "JSON_stringify JNull = Some ''null''"
| "JSON_stringify (JBool b) = Some (if b then ''true'' else ''false'')"
| "JSON_stringify (JNum n) = Some (show_int n)"
| "JSON_stringify (JStr s) = Some (json_quote s)"
| "JSON_stringify (JArr vs) = Some (''['' @ join '','' (stringify_elems vs) @ '']'')"
| "JSON_stringify (JObj ps) = Some (''{'' @ join '','' (stringify_props ps) @ ''}'')"
| "stringify_elems [] = []"
| "stringify_elems (v # vs) =
     (case JSON_stringify v of None \<Rightarrow> ''null'' | Some s \<Rightarrow> s) # stringify_elems vs"
| "stringify_props [] = []"
| "stringify_props ((k, v) # ps) =
     (case JSON_stringify v of
        None \<Rightarrow> stringify_props ps
      | Some s \<Rightarrow> (json_quote k @ '':'' @ s) # stringify_props ps)"

text \<open>A value inside a template literal or left of \<^verbatim>\<open>+ '\n'\<close>.\<close>

definition to_text :: "string option \<Rightarrow> string" where
  "to_text r = (case r of None \<Rightarrow> ''undefined'' | Some s \<Rightarrow> s)"

text \<open>
  The string a template literal makes of a value. \<open>None\<close> is the TypeError for an
  object that cannot be converted: a parsed JSON object with a property \<^verbatim>\<open>toString\<close>
  of its own (no JSON value is callable, and \<^verbatim>\<open>valueOf\<close> returns the object). An
  array is its elements joined by commas, \<^verbatim>\<open>null\<close> and \<^verbatim>\<open>undefined\<close> as
  empty strings.
\<close>

fun ToString :: "jsval \<Rightarrow> string option"
  and ToString_elems :: "jsval list \<Rightarrow> string list option" where
  "ToString JUndefined = Some ''undefined''"
| "ToString JNull = Some ''null''"
| "ToString (JBool b) = Some (if b then ''true'' else ''false'')"
| "ToString (JNum n) = Some (show_int n)"
| "ToString (JStr s) = Some s"
| "ToString (JArr vs) = map_option (join '','') (ToString_elems vs)"
| "ToString (JObj ps) =
     (if ''toString'' \<in> set (map fst ps) then None else Some ''[object Object]'')"
| "ToString_elems [] = Some []"
| "ToString_elems (v # vs) =
     (case (if v = JUndefined \<or> v = JNull then Some [] else ToString v) of
        None \<Rightarrow> None
      | Some s \<Rightarrow> map_option ((#) s) (ToString_elems vs))"

subsection \<open>Environment variables and requests\<close>

type_synonym env = "string \<rightharpoonup> string"

text \<open>\<^verbatim>\<open>!process.env.X\<close> holds when the variable is unset or empty.\<close>

definition env_set :: "env \<Rightarrow> string \<Rightarrow> bool" where
  "env_set env name = (case env name of None \<Rightarrow> False | Some v \<Rightarrow> v \<noteq> [])"

text \<open>The string of a variable or parameter that passed such a test.\<close>

definition value_of :: "string option \<Rightarrow> string" where
  "value_of p = (case p of None \<Rightarrow> [] | Some v \<Rightarrow> v)"

text \<open>
  A query parameter is absent or a string (the array and object forms of the query
  parser are not modelled); \<^verbatim>\<open>!code\<close> holds when it is absent or empty.
\<close>

definition present :: "string option \<Rightarrow> bool" where
  "present p = (case p of None \<Rightarrow> False | Some v \<Rightarrow> v \<noteq> [])"

datatype body = Text string | Json jsval

record response =
  status :: nat
  content :: body

text \<open>
  \<^verbatim>\<open>res.status(code).send(text)\<close>, for a request without conditional headers: the
  requests to \<^verbatim>\<open>/callback\<close> and \<^verbatim>\<open>/\<close> are modelled by their query alone.
\<close>

definition send :: "nat \<Rightarrow> string \<Rightarrow> response" where
  "send code text = \<lparr>status = code, content = Text text\<rparr>"

text \<open>
  \<^verbatim>\<open>res.json(v)\<close>, for a GET request with or without an \<^verbatim>\<open>If-None-Match\<close>
  header. The framework, whose settings \<^verbatim>\<open>index.js\<close> leaves at their defaults, sets
  a weak \<^verbatim>\<open>ETag\<close> on the body and tests the request for freshness: when the header
  is \<^verbatim>\<open>*\<close> or lists that ETag (with or without the prefix \<^verbatim>\<open>W/\<close>), the
  status becomes 304 and the body is dropped. The ETag is a SHA-1 of the body and is an
  argument here. The header is split at commas and each entry is stripped of the spaces
  around it. The request headers \<^verbatim>\<open>Cache-Control: no-cache\<close> and
  \<^verbatim>\<open>If-Modified-Since\<close>, which only make the framework send the body, are not part
  of the request.
\<close>

fun parseTokenList_from :: "string \<Rightarrow> string \<Rightarrow> string \<Rightarrow> string list" where
  "parseTokenList_from token spaces [] = [token]"
| "parseTokenList_from token spaces (c # cs) =
     (if c = CHR 0x20 then
        (if token = [] then parseTokenList_from [] [] cs
         else parseTokenList_from token (spaces @ [c]) cs)
      else if c = CHR 0x2C then token # parseTokenList_from [] [] cs
      else parseTokenList_from (token @ spaces @ [c]) [] cs)"

definition parseTokenList :: "string \<Rightarrow> string list" where
  "parseTokenList str = parseTokenList_from [] [] str"

definition fresh :: "string option \<Rightarrow> string \<Rightarrow> bool" where
  "fresh ifNoneMatch etag =
     (case ifNoneMatch of
        None \<Rightarrow> False
      | Some noneMatch \<Rightarrow>
         noneMatch \<noteq> []
         \<and> (noneMatch = ''*''
            \<or> (etag \<noteq> []
               \<and> (\<exists>m \<in> set (parseTokenList noneMatch).
                     m = etag \<or> m = ''W/'' @ etag \<or> ''W/'' @ m = etag))))"

definition json :: "string option \<Rightarrow> string \<Rightarrow> jsval \<Rightarrow> response" where
  "json ifNoneMatch etag v =
     (if fresh ifNoneMatch etag then \<lparr>status = 304, content = Text []\<rparr>
      else \<lparr>status = 200, content = Json v\<rparr>)"

definition msg_missing_code :: string where
  "msg_missing_code = ''C'' @ [CHR 0xC3, CHR 0xB3] @ ''digo ausente.''"

definition msg_missing_config :: string where
  "msg_missing_config =
     ''Vari'' @ [CHR 0xC3, CHR 0xA1] @ ''veis de ambiente n'' @ [CHR 0xC3, CHR 0xA3]
     @ ''o configuradas.''"

definition msg_invalid_grant :: string where
  "msg_invalid_grant =
     ''C'' @ [CHR 0xC3, CHR 0xB3] @ ''digo inv'' @ [CHR 0xC3, CHR 0xA1]
     @ ''lido ou expirado. Reinicie o fluxo de autoriza''
     @ [CHR 0xC3, CHR 0xA7, CHR 0xC3, CHR 0xA3] @ ''o e tente novamente.''"

definition msg_failure :: string where
  "msg_failure = ''Erro ao autorizar. Tente novamente.''"

definition msg_debug_prefix :: string where
  "msg_debug_prefix = ''Erro ao autorizar: ''"

definition msg_online :: string where
  "msg_online = ''Bot callback online!''"

definition html_authorized :: string where
  "html_authorized =
     [CHR 0x0A] @ ''      <html>'' @ [CHR 0x0A] @ ''        <body style='' @ [CHR 0x22]
     @ ''font-family: sans-serif; text-align: center; padding: 60px; background: #2f3136; color: white;''
     @ [CHR 0x22] @ ''>'' @ [CHR 0x0A] @ ''          <h2>'' @ [CHR 0xE2, CHR 0x9C, CHR 0x85]
     @ '' Autorizado!</h2>'' @ [CHR 0x0A] @ ''          <p>Voc'' @ [CHR 0xC3, CHR 0xAA] @ '' j''
     @ [CHR 0xC3, CHR 0xA1] @ '' pode voltar pro Discord e clicar em <strong>'' @ [CHR 0x22]
     @ ''J'' @ [CHR 0xC3, CHR 0xA1] @ '' autorizei, continuar'' @ [CHR 0x22]
     @ ''</strong>.</p>'' @ [CHR 0x0A] @ ''        </body>'' @ [CHR 0x0A] @ ''      </html>''
     @ [CHR 0x0A] @ ''    ''"

subsection \<open>The outside: calls, answers and state\<close>

record pool_config =
  host :: string
  user :: string
  password :: string
  db_name :: string
  port_text :: string
  connectionLimit :: nat
  acquireTimeout :: nat
  connectTimeout :: nat

datatype query =
    CreateTokens
  | UpsertToken "string option" "string option" "string option"
  | SelectToken "string option"

text \<open>
  The calls that leave the process, as a handler makes them; the profile fetch with its
  \<^verbatim>\<open>Authorization\<close> header.
\<close>

datatype event =
    CreatePool pool_config
  | GetConnection
  | Query query
  | Release
  | EndPool
  | TokenExchange "(string \<times> string) list"
  | ProfileFetch string
  | AppendFile string string

text \<open>
  What the outside answers during one request: the provider's two endpoints (the data of
  a 2xx response, or the error \<^verbatim>\<open>axios\<close> rejects with; the token endpoint is given
  the form, the profile endpoint the \<^verbatim>\<open>Authorization\<close> header), whether the pool hands out
  a connection, whether the server executes a query sent to it, whether the file can be
  appended to, the two clocks, and the text the database driver sends for a parameter
  that is neither a string nor null.
\<close>

record world =
  token_endpoint :: "(string \<times> string) list \<Rightarrow> js_error + jsval"
  profile_endpoint :: "string \<Rightarrow> js_error + jsval"
  db_connect_ok :: bool
  db_query_ok :: bool
  fs_append_ok :: bool
  clock_iso :: string
  db_clock :: nat
  driver_text :: "jsval \<Rightarrow> string"

text \<open>
  The table \<^verbatim>\<open>Tokens\<close> as the \<^verbatim>\<open>CREATE TABLE\<close> statement declares it; a SQL
  NULL is \<open>None\<close>.
\<close>

record token_row =
  row_id :: nat
  user_id :: string
  access_token :: string
  refresh_token :: "string option"
  created_at :: nat

record tokens_table =
  rows :: "token_row list"
  next_id :: nat

text \<open>
  The state the handlers read and write: the module variable \<^verbatim>\<open>dbPool\<close>
  (\<open>None\<close> is \<^verbatim>\<open>null\<close>), the table (\<open>None\<close> before it is created) and the
  content of \<^verbatim>\<open>tokens.log\<close> (\<open>None\<close> while the file does not exist).
\<close>

record state =
  dbPool :: "pool_config option"
  database :: "tokens_table option"
  tokens_log :: "string option"

subsection \<open>The three SQL statements\<close>

datatype sql_error = ColumnNull | DataTooLong

text \<open>\<^verbatim>\<open>CREATE TABLE IF NOT EXISTS Tokens (...)\<close>\<close>

definition sql_create :: "tokens_table option \<Rightarrow> tokens_table" where
  "sql_create db = (case db of None \<Rightarrow> \<lparr>rows = [], next_id = 1\<rparr> | Some t \<Rightarrow> t)"

text \<open>
  \<^verbatim>\<open>INSERT INTO Tokens (user_id, access_token, refresh_token) VALUES (?, ?, ?)
  ON DUPLICATE KEY UPDATE access_token = VALUES(access_token),
  refresh_token = VALUES(refresh_token)\<close>, in the server's default strict mode:
  \<^verbatim>\<open>user_id\<close> and \<^verbatim>\<open>access_token\<close> are NOT NULL, \<^verbatim>\<open>user_id\<close> is a
  VARCHAR(32), the tokens are TEXT (65535 bytes), \<^verbatim>\<open>user_id\<close> is UNIQUE. The
  timestamp moves when the update changes a value. Keys are compared as they are
  written (no collation).
\<close>

definition too_long :: "nat \<Rightarrow> string option \<Rightarrow> bool" where
  "too_long n v = (case v of None \<Rightarrow> False | Some s \<Rightarrow> n < length s)"

definition update_row :: "nat \<Rightarrow> string \<Rightarrow> string option \<Rightarrow> token_row \<Rightarrow> token_row" where
  "update_row now a r row =
     (if access_token row = a \<and> refresh_token row = r then row
      else row\<lparr>access_token := a, refresh_token := r, created_at := now\<rparr>)"

definition sql_upsert ::
  "nat \<Rightarrow> string option \<Rightarrow> string option \<Rightarrow> string option \<Rightarrow> tokens_table
     \<Rightarrow> sql_error + tokens_table" where
  "sql_upsert now u a r t =
     (case u of
        None \<Rightarrow> Inl ColumnNull
      | Some uid \<Rightarrow>
         (case a of
            None \<Rightarrow> Inl ColumnNull
          | Some acc \<Rightarrow>
             if too_long 32 u \<or> too_long 65535 a \<or> too_long 65535 r then Inl DataTooLong
             else if \<exists>row \<in> set (rows t). user_id row = uid
               then Inr (t\<lparr>rows := map (\<lambda>row. if user_id row = uid
                                                  then update_row now acc r row else row)
                                        (rows t)\<rparr>)
             else Inr \<lparr>rows = rows t @ [\<lparr>row_id = next_id t, user_id = uid,
                                           access_token = acc, refresh_token = r,
                                           created_at = now\<rparr>],
                       next_id = next_id t + 1\<rparr>))"

text \<open>\<^verbatim>\<open>SELECT id FROM Tokens WHERE user_id = ? LIMIT 1\<close>\<close>

definition sql_select :: "string option \<Rightarrow> tokens_table \<Rightarrow> nat list" where
  "sql_select u t =
     (case u of
        None \<Rightarrow> []
      | Some uid \<Rightarrow> take 1 (map row_id (filter (\<lambda>row. user_id row = uid) (rows t))))"

text \<open>How the driver binds a JavaScript value to a \<^verbatim>\<open>?\<close>.\<close>

definition sql_param :: "world \<Rightarrow> jsval \<Rightarrow> string option" where
  "sql_param w v =
     (case v of
        JUndefined \<Rightarrow> None
      | JNull \<Rightarrow> None
      | JStr s \<Rightarrow> Some s
      | _ \<Rightarrow> Some (driver_text w v))"

subsection \<open>Module start: the pool and initDatabase\<close>

definition hasDbConfig :: "env \<Rightarrow> bool" where
  "hasDbConfig env =
     (env_set env ''MYSQLHOST'' \<and> env_set env ''MYSQLUSER''
      \<and> env_set env ''MYSQLPASSWORD'' \<and> env_set env ''MYSQLDATABASE'')"

text \<open>
  Lines 159-173: \<^verbatim>\<open>let dbPool = null; if (hasDbConfig) dbPool = mariadb.createPool(...)\<close>.
  The port is kept as the text handed to \<^verbatim>\<open>parseInt\<close>.
\<close>

definition createDbPool :: "env \<Rightarrow> pool_config option \<times> event list" where
  "createDbPool env =
     (if hasDbConfig env then
        (let cfg = \<lparr>host = value_of (env ''MYSQLHOST''), user = value_of (env ''MYSQLUSER''),
                    password = value_of (env ''MYSQLPASSWORD''),
                    db_name = value_of (env ''MYSQLDATABASE''),
                    port_text = (if env_set env ''MYSQLPORT'' then value_of (env ''MYSQLPORT'')
                                 else ''3306''),
                    connectionLimit = 3, acquireTimeout = 10000, connectTimeout = 10000\<rparr>
         in (Some cfg, [CreatePool cfg]))
      else (None, []))"

text \<open>
  \<^verbatim>\<open>initDatabase\<close>: the \<^verbatim>\<open>catch\<close> ends the pool and sets \<^verbatim>\<open>dbPool = null\<close>;
  the \<^verbatim>\<open>finally\<close> releases the connection when there is one. Whether
  \<^verbatim>\<open>dbPool.end()\<close> succeeds only chooses the warning that is logged.
\<close>

definition initDatabase :: "world \<Rightarrow> state \<Rightarrow> state \<times> event list" where
  "initDatabase w st =
     (case dbPool st of
        None \<Rightarrow> (st, [])
      | Some pool \<Rightarrow>
         if \<not> db_connect_ok w then (st\<lparr>dbPool := None\<rparr>, [GetConnection, EndPool])
         else if \<not> db_query_ok w
           then (st\<lparr>dbPool := None\<rparr>, [GetConnection, Query CreateTokens, EndPool, Release])
         else (st\<lparr>database := Some (sql_create (database st))\<rparr>,
               [GetConnection, Query CreateTokens, Release]))"

text \<open>Loading the module: the pool, then \<^verbatim>\<open>initDatabase()\<close>.\<close>

definition boot ::
  "env \<Rightarrow> world \<Rightarrow> tokens_table option \<Rightarrow> string option \<Rightarrow> state \<times> event list" where
  "boot env w db log =
     (let (pool, ev1) = createDbPool env;
          (st, ev2) = initDatabase w \<lparr>dbPool = pool, database = db, tokens_log = log\<rparr>
      in (st, ev1 @ ev2))"

subsection \<open>GET /callback\<close>

text \<open>
  Lines 250-264, the branch \<^verbatim>\<open>if (dbPool)\<close>: one connection, one upsert with the
  parameters \<^verbatim>\<open>[discordUserId, accessToken, refreshToken || '']\<close>, the connection
  released. Every failure is caught and logged there. The first component tells whether the
  row was written.
\<close>

definition upsertToken ::
  "world \<Rightarrow> state \<Rightarrow> jsval \<Rightarrow> jsval \<Rightarrow> jsval \<Rightarrow> bool \<times> state \<times> event list" where
  "upsertToken w st discordUserId accessToken refreshToken =
     (if \<not> db_connect_ok w then (False, st, [GetConnection])
      else
        (let u = sql_param w discordUserId;
             a = sql_param w accessToken;
             r = sql_param w (js_or refreshToken (JStr []));
             ev = [GetConnection, Query (UpsertToken u a r), Release]
         in if \<not> db_query_ok w then (False, st, ev)
            else
              (case database st of
                 None \<Rightarrow> (False, st, ev)
               | Some t \<Rightarrow>
                  (case sql_upsert (db_clock w) u a r t of
                     Inl err \<Rightarrow> (False, st, ev)
                   | Inr t' \<Rightarrow> (True, st\<lparr>database := Some t'\<rparr>, ev)))))"

text \<open>
  Lines 265-283, the branch without a pool: with \<^verbatim>\<open>FILE_FALLBACK === 'true'\<close> one
  line is appended to \<^verbatim>\<open>tokens.log\<close>; a failure of the write is caught and logged.
\<close>

definition fallback_record :: "world \<Rightarrow> jsval \<Rightarrow> jsval \<Rightarrow> jsval \<Rightarrow> jsval" where
  "fallback_record w discordUserId accessToken refreshToken =
     JObj [(''created_at'', JStr (clock_iso w)),
           (''user_id'', discordUserId),
           (''access_token'', accessToken),
           (''refresh_token'', js_or refreshToken JNull)]"

definition fileFallback ::
  "env \<Rightarrow> world \<Rightarrow> state \<Rightarrow> jsval \<Rightarrow> jsval \<Rightarrow> jsval \<Rightarrow> state \<times> event list" where
  "fileFallback env w st discordUserId accessToken refreshToken =
     (if env ''FILE_FALLBACK'' = Some ''true'' then
        (let record = fallback_record w discordUserId accessToken refreshToken;
             line = to_text (JSON_stringify record) @ [CHR 0x0A];
             ev = [AppendFile ''tokens.log'' line]
         in if fs_append_ok w
            then (st\<lparr>tokens_log := Some ((case tokens_log st of None \<Rightarrow> [] | Some old \<Rightarrow> old)
                                          @ line)\<rparr>, ev)
            else (st, ev))
      else (st, []))"

text \<open>
  Lines 225-292, the body of the \<^verbatim>\<open>try\<close>, in its parts. \<open>Inl\<close> is the error
  thrown to the \<^verbatim>\<open>catch\<close>, \<open>Inr\<close> the value or the response sent.
\<close>

definition exchange_form :: "string \<Rightarrow> string \<Rightarrow> string \<Rightarrow> string \<Rightarrow> (string \<times> string) list" where
  "exchange_form clientId clientSecret code redirectUri =
     [(''client_id'', clientId), (''client_secret'', clientSecret),
      (''grant_type'', ''authorization_code''), (''code'', code),
      (''redirect_uri'', redirectUri)]"

text \<open>
  Lines 234-239: the POST to the token endpoint and the two reads from its data.
  Lines 242-246: the header \<^verbatim>\<open>`Bearer ${accessToken}`\<close>, the GET of the profile
  and the read of its \<^verbatim>\<open>id\<close>; when the header cannot be made no call is sent.
\<close>

definition exchangeCode ::
  "world \<Rightarrow> (string \<times> string) list \<Rightarrow> js_error + (jsval \<times> jsval)" where
  "exchangeCode w params =
     (case token_endpoint w params of
        Inl error \<Rightarrow> Inl error
      | Inr token_data \<Rightarrow>
         (case js_get token_data ''access_token'' of
            Inl error \<Rightarrow> Inl error
          | Inr accessToken \<Rightarrow>
             (case js_get token_data ''refresh_token'' of
                Inl error \<Rightarrow> Inl error
              | Inr refreshToken \<Rightarrow> Inr (accessToken, refreshToken))))"

definition authorization :: "jsval \<Rightarrow> string option" where
  "authorization accessToken = map_option ((@) ''Bearer '') (ToString accessToken)"

definition fetchProfile :: "world \<Rightarrow> jsval \<Rightarrow> js_error + jsval" where
  "fetchProfile w accessToken =
     (case authorization accessToken of
        None \<Rightarrow> Inl (TypeError ''Cannot convert object to primitive value'')
      | Some header \<Rightarrow>
         (case profile_endpoint w header of
            Inl error \<Rightarrow> Inl error
          | Inr user_data \<Rightarrow> js_get user_data ''id''))"

text \<open>Lines 249-283: the table when there is a pool, the file otherwise.\<close>

definition persist ::
  "env \<Rightarrow> world \<Rightarrow> state \<Rightarrow> jsval \<Rightarrow> jsval \<Rightarrow> jsval \<Rightarrow> state \<times> event list" where
  "persist env w st discordUserId accessToken refreshToken =
     (case dbPool st of
        Some pool \<Rightarrow> snd (upsertToken w st discordUserId accessToken refreshToken)
      | None \<Rightarrow> fileFallback env w st discordUserId accessToken refreshToken)"

definition callback_try ::
  "env \<Rightarrow> world \<Rightarrow> state \<Rightarrow> string \<Rightarrow> string \<Rightarrow> string \<Rightarrow> string
     \<Rightarrow> (js_error + response) \<times> state \<times> event list" where
  "callback_try env w st code redirectUri clientId clientSecret =
     (let params = exchange_form clientId clientSecret code redirectUri;
          ev1 = [TokenExchange params]
      in case exchangeCode w params of
           Inl error \<Rightarrow> (Inl error, st, ev1)
         | Inr (accessToken, refreshToken) \<Rightarrow>
            (let ev2 = ev1 @ (case authorization accessToken of
                                None \<Rightarrow> []
                              | Some header \<Rightarrow> [ProfileFetch header])
             in case fetchProfile w accessToken of
                  Inl error \<Rightarrow> (Inl error, st, ev2)
                | Inr discordUserId \<Rightarrow>
                   (let (st', ev3) = persist env w st discordUserId accessToken refreshToken
                    in (Inr (send 200 html_authorized), st', ev2 @ ev3))))"

text \<open>
  Lines 293-306, the \<^verbatim>\<open>catch\<close>.
  \<^verbatim>\<open>errData = error.response?.data || error.message || error\<close>; the error object
  itself stands here as what \<^verbatim>\<open>JSON.stringify\<close> makes of it: the object its
  \<^verbatim>\<open>toJSON()\<close> returns, and \<^verbatim>\<open>{}\<close> for a TypeError.
\<close>

fun response_data :: "js_error \<Rightarrow> jsval" where
  "response_data (AxiosError (Some d) m j) = d"
| "response_data (AxiosError None m j) = JUndefined"
| "response_data (TypeError m) = JUndefined"

fun message :: "js_error \<Rightarrow> string" where
  "message (AxiosError r m j) = m"
| "message (TypeError m) = m"

fun error_object :: "js_error \<Rightarrow> jsval" where
  "error_object (AxiosError r m j) = JObj j"
| "error_object (TypeError m) = JObj []"

definition errData :: "js_error \<Rightarrow> jsval" where
  "errData error =
     (if truthy (response_data error) then response_data error
      else if message error \<noteq> [] then JStr (message error)
      else error_object error)"

text \<open>
  \<^verbatim>\<open>error.response && error.response.data && error.response.data.error === 'invalid_grant'\<close>
\<close>

fun is_invalid_grant :: "js_error \<Rightarrow> bool" where
  "is_invalid_grant (AxiosError (Some d) m j) =
     (truthy d \<and> js_get d ''error'' = Inr (JStr ''invalid_grant''))"
| "is_invalid_grant (AxiosError None m j) = False"
| "is_invalid_grant (TypeError m) = False"

definition callback_catch :: "env \<Rightarrow> js_error \<Rightarrow> response" where
  "callback_catch env error =
     (if env ''DEBUG'' = Some ''true''
        then send 500 (msg_debug_prefix @ to_text (JSON_stringify (errData error)))
      else if is_invalid_grant error then send 400 msg_invalid_grant
      else send 500 msg_failure)"

text \<open>Lines 212-307, the handler; the status of \<^verbatim>\<open>res.send\<close> alone is 200.\<close>

definition callback ::
  "env \<Rightarrow> world \<Rightarrow> string option \<Rightarrow> state \<Rightarrow> response \<times> state \<times> event list" where
  "callback env w code st =
     (if \<not> present code then (send 400 msg_missing_code, st, [])
      else if \<not> env_set env ''REDIRECT_URI'' \<or> \<not> env_set env ''CLIENT_ID''
              \<or> \<not> env_set env ''CLIENT_SECRET''
        then (send 500 msg_missing_config, st, [])
      else
        (case callback_try env w st (value_of code) (value_of (env ''REDIRECT_URI''))
                (value_of (env ''CLIENT_ID'')) (value_of (env ''CLIENT_SECRET'')) of
           (Inl error, st', ev) \<Rightarrow> (callback_catch env error, st', ev)
         | (Inr res, st', ev) \<Rightarrow> (res, st', ev)))"

subsection \<open>GET /check and GET /\<close>

text \<open>
  The two bodies of \<^verbatim>\<open>/check\<close> and the ETags the framework computes for
  \<^verbatim>\<open>{"hasToken":false}\<close> and \<^verbatim>\<open>{"hasToken":true}\<close>: \<^verbatim>\<open>W/\<close>, the
  length in hexadecimal and 27 characters of the SHA-1 in base64.
\<close>

definition has_token_json :: "bool \<Rightarrow> jsval" where
  "has_token_json b = JObj [(''hasToken'', JBool b)]"

definition has_token_etag :: "bool \<Rightarrow> string" where
  "has_token_etag b =
     (if b then ''W/'' @ [CHR 0x22] @ ''11-PHA351nxgcrjkmy3taXYkFPdD7Y'' @ [CHR 0x22]
      else ''W/'' @ [CHR 0x22] @ ''12-1xo2qG6GlH262uLb+dZIhD9ad2A'' @ [CHR 0x22])"

definition json_hasToken :: "string option \<Rightarrow> bool \<Rightarrow> response" where
  "json_hasToken ifNoneMatch b = json ifNoneMatch (has_token_etag b) (has_token_json b)"

text \<open>
  Lines 312-326. With \<^verbatim>\<open>dbPool\<close> null, \<^verbatim>\<open>dbPool.getConnection()\<close> throws a
  TypeError inside the \<^verbatim>\<open>try\<close>; the \<^verbatim>\<open>catch\<close> answers for every error.
\<close>

definition check ::
  "world \<Rightarrow> string option \<Rightarrow> string option \<Rightarrow> state \<Rightarrow> response \<times> state \<times> event list" where
  "check w userId ifNoneMatch st =
     (if \<not> present userId then (json_hasToken ifNoneMatch False, st, [])
      else
        (case dbPool st of
           None \<Rightarrow> (json_hasToken ifNoneMatch False, st, [])
         | Some pool \<Rightarrow>
            if \<not> db_connect_ok w then (json_hasToken ifNoneMatch False, st, [GetConnection])
            else
              (let ev = [GetConnection, Query (SelectToken userId), Release]
               in if \<not> db_query_ok w then (json_hasToken ifNoneMatch False, st, ev)
                  else
                    (case database st of
                       None \<Rightarrow> (json_hasToken ifNoneMatch False, st, ev)
                     | Some t \<Rightarrow>
                        (json_hasToken ifNoneMatch (0 < length (sql_select userId t)), st,
                         ev)))))"

definition root :: "state \<Rightarrow> response \<times> state \<times> event list" where
  "root st = (send 200 msg_online, st, [])"

subsection \<open>The server over a sequence of requests\<close>

text \<open>
  A request is its route and its query, and for \<^verbatim>\<open>/check\<close> its
  \<^verbatim>\<open>If-None-Match\<close> header.
\<close>

datatype request =
    GetRoot
  | GetCallback "string option"
  | GetCheck "string option" "string option"

fun handle :: "env \<Rightarrow> world \<Rightarrow> request \<Rightarrow> state \<Rightarrow> response \<times> state \<times> event list" where
  "handle env w GetRoot st = root st"
| "handle env w (GetCallback code) st = callback env w code st"
| "handle env w (GetCheck userId ifNoneMatch) st = check w userId ifNoneMatch st"

fun serve :: "env \<Rightarrow> (world \<times> request) list \<Rightarrow> state \<Rightarrow> state" where
  "serve env [] st = st"
| "serve env ((w, req) # reqs) st = serve env reqs (fst (snd (handle env w req st)))"

subsection \<open>Concrete environments, answers and states\<close>

definition env_oauth :: env where
  "env_oauth = [''REDIRECT_URI'' \<mapsto> ''https://bot.example/callback'',
                ''CLIENT_ID'' \<mapsto> ''1234'', ''CLIENT_SECRET'' \<mapsto> ''s3cret'']"

definition env_db :: env where
  "env_db = env_oauth(''MYSQLHOST'' \<mapsto> ''db.internal'', ''MYSQLUSER'' \<mapsto> ''root'',
                      ''MYSQLPASSWORD'' \<mapsto> ''pw'', ''MYSQLDATABASE'' \<mapsto> ''railway'')"

text \<open>The provider answers with the tokens T1, R1 and the user U1; everything works.\<close>

definition world_ok :: world where
  "world_ok =
     \<lparr>token_endpoint = (\<lambda>params. Inr (JObj [(''access_token'', JStr ''T1''),
                                               (''refresh_token'', JStr ''R1'')])),
      profile_endpoint = (\<lambda>header. Inr (JObj [(''id'', JStr ''U1'')])),
      db_connect_ok = True, db_query_ok = True, fs_append_ok = True,
      clock_iso = ''2024-05-01T12:00:00.000Z'', db_clock = 7,
      driver_text = (\<lambda>v. to_text (JSON_stringify v))\<rparr>"

definition world_db_down :: world where
  "world_db_down = world_ok\<lparr>db_connect_ok := False\<rparr>"

definition pool_db :: pool_config where
  "pool_db = \<lparr>host = ''db.internal'', user = ''root'', password = ''pw'', db_name = ''railway'',
              port_text = ''3306'', connectionLimit = 3, acquireTimeout = 10000,
              connectTimeout = 10000\<rparr>"

definition state_off :: state where
  "state_off = \<lparr>dbPool = None, database = None, tokens_log = None\<rparr>"

definition state_on :: state where
  "state_on = \<lparr>dbPool = Some pool_db, database = Some \<lparr>rows = [], next_id = 1\<rparr>,
               tokens_log = None\<rparr>"

text \<open>The provider rejects the code: a 400 response with \<^verbatim>\<open>error=invalid_grant\<close>.\<close>

definition world_invalid_grant :: world where
  "world_invalid_grant =
     world_ok\<lparr>token_endpoint :=
       (\<lambda>params. Inl (AxiosError (Some (JObj [(''error'', JStr ''invalid_grant'')]))
                        ''Request failed with status code 400'' []))\<rparr>"

definition env_debug :: env where
  "env_debug = env_oauth(''DEBUG'' \<mapsto> ''true'')"

subsection \<open>Notions used in the statements\<close>

text \<open>The two calls to the provider, among the calls of a request.\<close>

fun is_token_exchange :: "event \<Rightarrow> bool" where
  "is_token_exchange (TokenExchange params) = True"
| "is_token_exchange e = False"

fun is_profile_fetch :: "event \<Rightarrow> bool" where
  "is_profile_fetch (ProfileFetch header) = True"
| "is_profile_fetch e = False"

text \<open>The \<^verbatim>\<open>UNIQUE\<close> constraint on \<^verbatim>\<open>user_id\<close>, of a table that exists.\<close>

definition unique_user_id :: "tokens_table option \<Rightarrow> bool" where
  "unique_user_id db = (case db of None \<Rightarrow> True | Some t \<Rightarrow> distinct (map user_id (rows t)))"

text \<open>The table after U1 was stored, and after U1 authorized again.\<close>

definition state_u1 :: state where
  "state_u1 = state_on\<lparr>database :=
     Some \<lparr>rows = [\<lparr>row_id = 1, user_id = ''U1'', access_token = ''T1'',
                     refresh_token = Some ''R1'', created_at = 7\<rparr>], next_id = 2\<rparr>\<rparr>"

definition state_u1_again :: state where
  "state_u1_again = state_on\<lparr>database :=
     Some \<lparr>rows = [\<lparr>row_id = 1, user_id = ''U1'', access_token = ''T2'',
                     refresh_token = Some ''R2'', created_at = 9\<rparr>], next_id = 2\<rparr>\<rparr>"

definition world_again :: world where
  "world_again =
     world_ok\<lparr>token_endpoint := (\<lambda>params. Inr (JObj [(''access_token'', JStr ''T2''),
                                                       (''refresh_token'', JStr ''R2'')])),
              db_clock := 9\<rparr>"

text \<open>The provider answers without a \<^verbatim>\<open>refresh_token\<close>.\<close>

definition world_no_refresh :: world where
  "world_no_refresh =
     world_ok\<lparr>token_endpoint := (\<lambda>params. Inr (JObj [(''access_token'', JStr ''T3'')]))\<rparr>"

text \<open>
  Well-formed JSON text as \<^verbatim>\<open>JSON.stringify\<close> writes it, that is without white
  space (RFC 8259): the three literals, integers without leading zeros, strings in which
  quotation mark, reverse solidus and control characters only occur escaped, arrays and
  objects. Bytes above 127 stand for themselves.
\<close>

definition is_digit :: "char \<Rightarrow> bool" where
  "is_digit c = (c \<in> set ''0123456789'')"

definition is_hex :: "char \<Rightarrow> bool" where
  "is_hex c = (c \<in> set ''0123456789abcdefABCDEF'')"

fun json_chars :: "string \<Rightarrow> bool" where
  "json_chars [] = True"
| "json_chars (c # cs) =
     (if c = CHR 0x5C then
        (case cs of
           [] \<Rightarrow> False
         | e # cs' \<Rightarrow>
            if e \<in> set [CHR 0x22, CHR 0x5C, CHR ''/'', CHR ''b'', CHR ''f'', CHR ''n'', CHR ''r'',
                         CHR ''t'']
              then json_chars cs'
            else e = CHR ''u'' \<and> 4 \<le> length cs' \<and> list_all is_hex (take 4 cs')
                 \<and> json_chars (drop 4 cs'))
      else \<not> (c = CHR 0x22 \<or> (of_char c :: nat) < 32) \<and> json_chars cs)"

definition json_int :: "string \<Rightarrow> bool" where
  "json_int s = (s \<noteq> [] \<and> list_all is_digit s \<and> (s = ''0'' \<or> hd s \<noteq> CHR ''0''))"

definition json_number :: "string \<Rightarrow> bool" where
  "json_number s = (case s of [] \<Rightarrow> False | c # ds \<Rightarrow> if c = CHR ''-'' then json_int ds else json_int s)"

inductive json_text :: "string \<Rightarrow> bool" where
  json_null: "json_text ''null''"
| json_true: "json_text ''true''"
| json_false: "json_text ''false''"
| json_num: "json_number s \<Longrightarrow> json_text s"
| json_string: "json_chars s \<Longrightarrow> json_text ([CHR 0x22] @ s @ [CHR 0x22])"
| json_array: "(\<forall>x \<in> set xs. json_text x) \<Longrightarrow> json_text (''['' @ join '','' xs @ '']'')"
| json_object:
    "(\<forall>m \<in> set ms. \<exists>k v. m = [CHR 0x22] @ k @ [CHR 0x22] @ '':'' @ v \<and> json_chars k \<and> json_text v)
       \<Longrightarrow> json_text (''{'' @ join '','' ms @ ''}'')"

text \<open>The file fallback switched on, a disk that refuses the write, and the line for U1.\<close>

definition env_fallback :: env where
  "env_fallback = env_oauth(''FILE_FALLBACK'' \<mapsto> ''true'')"

definition line_u1 :: string where
  "line_u1 =
     ''{'' @ [CHR 0x22] @ ''created_at'' @ [CHR 0x22] @ '':'' @ [CHR 0x22]
     @ ''2024-05-01T12:00:00.000Z'' @ [CHR 0x22] @ '','' @ [CHR 0x22] @ ''user_id''
     @ [CHR 0x22] @ '':'' @ [CHR 0x22] @ ''U1'' @ [CHR 0x22] @ '','' @ [CHR 0x22]
     @ ''access_token'' @ [CHR 0x22] @ '':'' @ [CHR 0x22] @ ''T1'' @ [CHR 0x22] @ '',''
     @ [CHR 0x22] @ ''refresh_token'' @ [CHR 0x22] @ '':'' @ [CHR 0x22] @ ''R1'' @ [CHR 0x22]
     @ ''}'' @ [CHR 0x0A]"

definition world_disk_full :: world where
  "world_disk_full = world_ok\<lparr>fs_append_ok := False\<rparr>"


section \<open>Properties\<close>

subsection \<open>Request validation\<close>

text \<open>
  C8. A \<^verbatim>\<open>/callback\<close> request without a \<^verbatim>\<open>code\<close> (absent or empty, the test
  \<^verbatim>\<open>!code\<close>) is answered 400 with the fixed message; a request with a code while one of
  \<^verbatim>\<open>REDIRECT_URI\<close>, \<^verbatim>\<open>CLIENT_ID\<close>, \<^verbatim>\<open>CLIENT_SECRET\<close> is unset is
  answered 500 with the fixed message. In both cases the state is unchanged and no call
  leaves the process.
\<close>

theorem callback_validation:
  "(\<not> present code \<longrightarrow>
      callback env w code st = (\<lparr>status = 400, content = Text msg_missing_code\<rparr>, st, []))
   \<and> (present code \<and> (\<not> env_set env ''REDIRECT_URI'' \<or> \<not> env_set env ''CLIENT_ID''
                        \<or> \<not> env_set env ''CLIENT_SECRET'') \<longrightarrow>
      callback env w code st = (\<lparr>status = 500, content = Text msg_missing_config\<rparr>, st, []))"
  by (simp add: callback_def send_def)

theorem callback_validation_witness:
  "\<not> present None \<and> present (Some ''ABC'')
   \<and> \<not> env_set (env_oauth(''CLIENT_ID'' := None)) ''CLIENT_ID''
   \<and> callback env_oauth world_ok None state_off
        = (\<lparr>status = 400, content = Text msg_missing_code\<rparr>, state_off, [])
   \<and> callback (env_oauth(''CLIENT_ID'' := None)) world_ok (Some ''ABC'') state_off
        = (\<lparr>status = 500, content = Text msg_missing_config\<rparr>, state_off, [])"
  using callback_validation [of None env_oauth world_ok state_off]
    callback_validation [of "Some ''ABC''" "env_oauth(''CLIENT_ID'' := None)" world_ok state_off]
  by (simp add: present_def env_set_def env_oauth_def)

subsection \<open>The answer to a successful exchange\<close>





subsection \<open>The answer to a failed exchange\<close>

lemma get_error_truthy: "js_get d name = Inr (JStr s) \<Longrightarrow> truthy d"
  by (cases d) (simp_all)

text \<open>
  C3, as amended. Unless \<^verbatim>\<open>DEBUG\<close> is \<^verbatim>\<open>'true'\<close>, a \<^verbatim>\<open>/callback\<close>
  request whose token exchange is rejected with a provider response whose
  \<^verbatim>\<open>error\<close> field is \<^verbatim>\<open>'invalid_grant'\<close> is answered 400 with the message that
  asks to restart the authorization flow.
\<close>

theorem invalid_grant_not_debug:
  assumes "present code" "env_set env ''REDIRECT_URI''" "env_set env ''CLIENT_ID''"
    "env_set env ''CLIENT_SECRET''"
    "token_endpoint w (exchange_form (value_of (env ''CLIENT_ID''))
        (value_of (env ''CLIENT_SECRET'')) (value_of code) (value_of (env ''REDIRECT_URI'')))
       = Inl (AxiosError (Some d) m j)"
    "js_get d ''error'' = Inr (JStr ''invalid_grant'')"
    "env ''DEBUG'' \<noteq> Some ''true''"
  shows "fst (callback env w code st) = \<lparr>status = 400, content = Text msg_invalid_grant\<rparr>"
  using assms get_error_truthy [of d "''error''" "''invalid_grant''"]
  by (simp add: callback_def callback_try_def exchangeCode_def callback_catch_def send_def Let_def)

theorem invalid_grant_not_debug_witness:
  "present (Some ''ABC'') \<and> env_set env_oauth ''REDIRECT_URI'' \<and> env_set env_oauth ''CLIENT_ID''
   \<and> env_set env_oauth ''CLIENT_SECRET''
   \<and> token_endpoint world_invalid_grant (exchange_form (value_of (env_oauth ''CLIENT_ID''))
        (value_of (env_oauth ''CLIENT_SECRET'')) (value_of (Some ''ABC''))
        (value_of (env_oauth ''REDIRECT_URI'')))
       = Inl (AxiosError (Some (JObj [(''error'', JStr ''invalid_grant'')]))
                ''Request failed with status code 400'' [])
   \<and> js_get (JObj [(''error'', JStr ''invalid_grant'')]) ''error'' = Inr (JStr ''invalid_grant'')
   \<and> env_oauth ''DEBUG'' \<noteq> Some ''true''
   \<and> fst (callback env_oauth world_invalid_grant (Some ''ABC'') state_off)
       = \<lparr>status = 400, content = Text msg_invalid_grant\<rparr>"
proof -
  have h: "present (Some ''ABC'')" "env_set env_oauth ''REDIRECT_URI''"
    "env_set env_oauth ''CLIENT_ID''" "env_set env_oauth ''CLIENT_SECRET''"
    by (simp_all add: present_def env_set_def env_oauth_def)
  have t: "token_endpoint world_invalid_grant (exchange_form (value_of (env_oauth ''CLIENT_ID''))
        (value_of (env_oauth ''CLIENT_SECRET'')) (value_of (Some ''ABC''))
        (value_of (env_oauth ''REDIRECT_URI'')))
       = Inl (AxiosError (Some (JObj [(''error'', JStr ''invalid_grant'')]))
                ''Request failed with status code 400'' [])"
    by (simp add: world_invalid_grant_def)
  have g: "js_get (JObj [(''error'', JStr ''invalid_grant'')]) ''error'' = Inr (JStr ''invalid_grant'')"
    by simp
  have d: "env_oauth ''DEBUG'' \<noteq> Some ''true''"
    by (simp add: env_oauth_def)
  show ?thesis
    using h t g d invalid_grant_not_debug [OF h t g d, of state_off] by simp
qed

text \<open>
  C3 as stated fails in debug mode: with \<^verbatim>\<open>DEBUG=true\<close> the same rejection is
  answered 500.
\<close>

theorem invalid_grant_debug_counterexample:
  "present (Some ''ABC'') \<and> env_set env_debug ''REDIRECT_URI'' \<and> env_set env_debug ''CLIENT_ID''
   \<and> env_set env_debug ''CLIENT_SECRET''
   \<and> token_endpoint world_invalid_grant (exchange_form (value_of (env_debug ''CLIENT_ID''))
        (value_of (env_debug ''CLIENT_SECRET'')) (value_of (Some ''ABC''))
        (value_of (env_debug ''REDIRECT_URI'')))
       = Inl (AxiosError (Some (JObj [(''error'', JStr ''invalid_grant'')]))
                ''Request failed with status code 400'' [])
   \<and> js_get (JObj [(''error'', JStr ''invalid_grant'')]) ''error'' = Inr (JStr ''invalid_grant'')
   \<and> status (fst (callback env_debug world_invalid_grant (Some ''ABC'') state_off)) = 500
   \<and> status (fst (callback env_debug world_invalid_grant (Some ''ABC'') state_off)) \<noteq> 400"
  by (simp add: callback_def callback_try_def exchangeCode_def callback_catch_def send_def Let_def
      present_def env_set_def env_debug_def env_oauth_def world_invalid_grant_def world_ok_def)

text \<open>
  C10. With \<^verbatim>\<open>DEBUG=true\<close>, every failure of the exchange or of the profile fetch
  (an \<^verbatim>\<open>invalid_grant\<close> rejection too) is answered 500 with
  \<^verbatim>\<open>JSON.stringify(errData)\<close> after the fixed prefix; the answer is never the 400 of
  the invalid-grant branch.
\<close>

theorem debug_mode_failure:
  assumes "env ''DEBUG'' = Some ''true''"
    "present code" "env_set env ''REDIRECT_URI''" "env_set env ''CLIENT_ID''"
    "env_set env ''CLIENT_SECRET''"
    "params = exchange_form (value_of (env ''CLIENT_ID'')) (value_of (env ''CLIENT_SECRET''))
        (value_of code) (value_of (env ''REDIRECT_URI''))"
    "exchangeCode w params = Inl error
     \<or> (exchangeCode w params = Inr (accessToken, refreshToken)
        \<and> fetchProfile w accessToken = Inl error)"
  shows "fst (callback env w code st)
           = \<lparr>status = 500,
              content = Text (msg_debug_prefix @ to_text (JSON_stringify (errData error)))\<rparr>
         \<and> status (fst (callback env w code st)) \<noteq> 400"
  using assms
  by (auto simp add: callback_def callback_try_def callback_catch_def send_def Let_def)

theorem debug_mode_failure_witness:
  "env_debug ''DEBUG'' = Some ''true'' \<and> present (Some ''ABC'')
   \<and> env_set env_debug ''REDIRECT_URI'' \<and> env_set env_debug ''CLIENT_ID''
   \<and> env_set env_debug ''CLIENT_SECRET''
   \<and> exchangeCode world_invalid_grant
        (exchange_form ''1234'' ''s3cret'' ''ABC'' ''https://bot.example/callback'')
       = Inl (AxiosError (Some (JObj [(''error'', JStr ''invalid_grant'')]))
                ''Request failed with status code 400'' [])
   \<and> fst (callback env_debug world_invalid_grant (Some ''ABC'') state_off)
       = \<lparr>status = 500,
          content = Text (''Erro ao autorizar: {'' @ [CHR 0x22] @ ''error'' @ [CHR 0x22] @ '':''
                          @ [CHR 0x22] @ ''invalid_grant'' @ [CHR 0x22] @ ''}'')\<rparr>"
proof -
  have d: "env_debug ''DEBUG'' = Some ''true''"
    by (simp add: env_debug_def)
  have h: "present (Some ''ABC'')" "env_set env_debug ''REDIRECT_URI''"
    "env_set env_debug ''CLIENT_ID''" "env_set env_debug ''CLIENT_SECRET''"
    by (simp_all add: present_def env_set_def env_debug_def env_oauth_def)
  have p: "exchange_form ''1234'' ''s3cret'' ''ABC'' ''https://bot.example/callback''
      = exchange_form (value_of (env_debug ''CLIENT_ID'')) (value_of (env_debug ''CLIENT_SECRET''))
        (value_of (Some ''ABC'')) (value_of (env_debug ''REDIRECT_URI''))"
    by (simp add: env_debug_def env_oauth_def value_of_def)
  have e: "exchangeCode world_invalid_grant
        (exchange_form ''1234'' ''s3cret'' ''ABC'' ''https://bot.example/callback'')
       = Inl (AxiosError (Some (JObj [(''error'', JStr ''invalid_grant'')]))
                ''Request failed with status code 400'' [])"
    by (simp add: exchangeCode_def world_invalid_grant_def)
  show ?thesis
    using d h e debug_mode_failure [OF d h p disjI1 [OF e], of state_off]
    by (simp add: errData_def msg_debug_prefix_def to_text_def json_quote_def json_escape_def)
qed

subsection \<open>The states of the pool\<close>

lemma upsertToken_pool: "dbPool (fst (snd (upsertToken w st u a r))) = dbPool st"
  by (simp add: upsertToken_def Let_def split: option.splits sum.splits)

lemma fileFallback_pool: "dbPool (fst (fileFallback env w st u a r)) = dbPool st"
  by (simp add: fileFallback_def Let_def)

lemma persist_pool: "dbPool (fst (persist env w st u a r)) = dbPool st"
  by (simp add: persist_def upsertToken_pool fileFallback_pool split: option.splits)

lemma callback_try_pool:
  "dbPool (fst (snd (callback_try env w st c r i s))) = dbPool st"
  by (auto simp add: callback_try_def Let_def split: sum.splits prod.splits)
     (metis fst_conv persist_pool)

lemma callback_pool: "dbPool (fst (snd (callback env w code st))) = dbPool st"
proof -
  obtain res st' ev where
    t: "callback_try env w st (value_of code) (value_of (env ''REDIRECT_URI''))
          (value_of (env ''CLIENT_ID'')) (value_of (env ''CLIENT_SECRET'')) = (res, st', ev)"
    by (cases "callback_try env w st (value_of code) (value_of (env ''REDIRECT_URI''))
          (value_of (env ''CLIENT_ID'')) (value_of (env ''CLIENT_SECRET''))") auto
  have "dbPool st' = dbPool st"
    using callback_try_pool [of env w st "value_of code" "value_of (env ''REDIRECT_URI'')"
        "value_of (env ''CLIENT_ID'')" "value_of (env ''CLIENT_SECRET'')"] t by simp
  then show ?thesis
    using t by (simp add: callback_def split: sum.splits)
qed

lemma check_state: "fst (snd (check w userId ifNoneMatch st)) = st"
  by (simp add: check_def Let_def split: option.splits)

lemma handle_pool: "dbPool (fst (snd (handle env w req st))) = dbPool st"
  by (cases req) (simp_all add: root_def callback_pool check_state)

lemma serve_pool: "dbPool (serve env reqs st) = dbPool st"
  by (induction reqs arbitrary: st) (auto simp: handle_pool)

text \<open>
  C2. When one of \<^verbatim>\<open>MYSQLHOST\<close>, \<^verbatim>\<open>MYSQLUSER\<close>, \<^verbatim>\<open>MYSQLPASSWORD\<close>,
  \<^verbatim>\<open>MYSQLDATABASE\<close> is missing, the module starts with \<^verbatim>\<open>dbPool = null\<close> and
  makes no call at all (no pool is created, no connection asked for). When the
  configuration is there and \<^verbatim>\<open>initDatabase\<close> fails (no connection, or the
  \<^verbatim>\<open>CREATE TABLE\<close> fails), the pool is ended and \<^verbatim>\<open>dbPool\<close> becomes null. A pool
  that is there stays there through every \<^verbatim>\<open>/callback\<close> and \<^verbatim>\<open>/check\<close> request,
  whatever the database answers, and through every sequence of requests.
\<close>

theorem persistence_states:
  "(\<not> env_set env ''MYSQLHOST'' \<or> \<not> env_set env ''MYSQLUSER'' \<or> \<not> env_set env ''MYSQLPASSWORD''
      \<or> \<not> env_set env ''MYSQLDATABASE'' \<longrightarrow>
        boot env w db log = (\<lparr>dbPool = None, database = db, tokens_log = log\<rparr>, []))
   \<and> (hasDbConfig env \<and> (\<not> db_connect_ok w \<or> \<not> db_query_ok w) \<longrightarrow>
        dbPool (fst (boot env w db log)) = None
        \<and> EndPool \<in> set (snd (boot env w db log)))
   \<and> (dbPool st = Some pool \<longrightarrow>
        dbPool (fst (snd (callback env w code st))) = Some pool
        \<and> dbPool (fst (snd (check w userId ifNoneMatch st))) = Some pool
        \<and> dbPool (serve env reqs st) = Some pool)"
  by (auto simp add: boot_def createDbPool_def hasDbConfig_def initDatabase_def Let_def
      callback_pool check_state serve_pool handle_pool)

theorem persistence_states_witness:
  "\<not> env_set env_oauth ''MYSQLHOST''
   \<and> boot env_oauth world_ok None None = (state_off, [])
   \<and> hasDbConfig env_db \<and> \<not> db_connect_ok world_db_down
   \<and> dbPool (fst (boot env_db world_db_down None None)) = None
   \<and> EndPool \<in> set (snd (boot env_db world_db_down None None))
   \<and> dbPool state_on = Some pool_db
   \<and> dbPool (fst (snd (callback env_db world_db_down (Some ''ABC'') state_on))) = Some pool_db
   \<and> dbPool (fst (snd (check world_db_down (Some ''U1'') None state_on))) = Some pool_db
   \<and> dbPool (serve env_db [(world_db_down, GetCallback (Some ''ABC'')),
                            (world_db_down, GetCheck (Some ''U1'') None)] state_on) = Some pool_db"
  using persistence_states [where env = env_oauth and w = world_ok and db = None and log = None
      and st = state_on and pool = pool_db and code = None and userId = None
      and ifNoneMatch = None and reqs = "[]"]
    persistence_states [where env = env_db and w = world_db_down and db = None and log = None
      and st = state_on and pool = pool_db and code = "Some ''ABC''" and userId = "Some ''U1''"
      and ifNoneMatch = None and reqs = "[(world_db_down, GetCallback (Some ''ABC'')),
                   (world_db_down, GetCheck (Some ''U1'') None)]"]
  by (simp add: env_set_def hasDbConfig_def env_db_def env_oauth_def world_db_down_def
      world_ok_def state_on_def state_off_def)

subsection \<open>GET /check\<close>





subsection \<open>The calls of a /callback request\<close>

lemma upsertToken_events:
  "snd (snd (upsertToken w st u a r)) = [GetConnection]
   \<or> (\<exists>q. snd (snd (upsertToken w st u a r)) = [GetConnection, Query q, Release])"
  by (simp add: upsertToken_def Let_def split: option.splits sum.splits)

lemma fileFallback_events:
  "snd (fileFallback env w st u a r) = []
   \<or> (\<exists>f l. snd (fileFallback env w st u a r) = [AppendFile f l])"
  by (simp add: fileFallback_def Let_def)

lemma persist_events:
  "snd (persist env w st u a r) \<in> {[], [GetConnection]}
   \<or> (\<exists>q. snd (persist env w st u a r) = [GetConnection, Query q, Release])
   \<or> (\<exists>f l. snd (persist env w st u a r) = [AppendFile f l])"
  using upsertToken_events [of w st u a r] fileFallback_events [of env w st u a r]
  by (auto simp add: persist_def split: option.splits)

text \<open>
  C7. A \<^verbatim>\<open>/callback\<close> request with a code and the full configuration starts with
  the one token exchange and makes no other. When the exchange failed it does not fetch
  the profile. When the exchange succeeded it fetches the profile once, after the
  exchange, with the access token the exchange returned in the header: always so when
  the token is a string, and with the one exception of a value that cannot be written
  into the header, which throws before the call. No call occurs twice.
\<close>

theorem callback_calls:
  assumes "present code" "env_set env ''REDIRECT_URI''" "env_set env ''CLIENT_ID''"
    "env_set env ''CLIENT_SECRET''"
    "params = exchange_form (value_of (env ''CLIENT_ID'')) (value_of (env ''CLIENT_SECRET''))
        (value_of code) (value_of (env ''REDIRECT_URI''))"
    "ev = snd (snd (callback env w code st))"
  shows "(\<exists>rest. ev = TokenExchange params # rest
            \<and> filter is_token_exchange rest = []
            \<and> filter is_profile_fetch rest
                = (case exchangeCode w params of
                     Inl error \<Rightarrow> []
                   | Inr (accessToken, refreshToken) \<Rightarrow>
                      (case authorization accessToken of
                         None \<Rightarrow> []
                       | Some header \<Rightarrow> [ProfileFetch header])))
         \<and> (\<forall>token refreshToken. exchangeCode w params = Inr (JStr token, refreshToken) \<longrightarrow>
               filter is_profile_fetch ev = [ProfileFetch (''Bearer '' @ token)])
         \<and> distinct ev"
proof -
  have main: "(\<exists>rest. ev = TokenExchange params # rest
            \<and> filter is_token_exchange rest = []
            \<and> filter is_profile_fetch rest
                = (case exchangeCode w params of
                     Inl error \<Rightarrow> []
                   | Inr (accessToken, refreshToken) \<Rightarrow>
                      (case authorization accessToken of
                         None \<Rightarrow> []
                       | Some header \<Rightarrow> [ProfileFetch header])))
         \<and> distinct ev"
  proof (cases "exchangeCode w params")
    case (Inl error)
    then show ?thesis
      using assms by (simp add: callback_def callback_try_def Let_def)
  next
    case (Inr pair)
    obtain accessToken refreshToken where pair: "pair = (accessToken, refreshToken)"
      by (cases pair)
    show ?thesis
    proof (cases "authorization accessToken")
      case None
      then have "fetchProfile w accessToken
                   = Inl (TypeError ''Cannot convert object to primitive value'')"
        by (simp add: fetchProfile_def)
      then show ?thesis
        using assms Inr pair None by (simp add: callback_def callback_try_def Let_def)
    next
      case (Some header)
      show ?thesis
      proof (cases "fetchProfile w accessToken")
        case (Inl error)
        then show ?thesis
          using assms Inr pair Some by (simp add: callback_def callback_try_def Let_def)
      next
        case fetched: (Inr discordUserId)
        obtain st' ev3 where
          p: "persist env w st discordUserId accessToken refreshToken = (st', ev3)"
          by (cases "persist env w st discordUserId accessToken refreshToken")
        have ev: "ev = [TokenExchange params, ProfileFetch header] @ ev3"
          using assms Inr pair Some fetched p
          by (simp add: callback_def callback_try_def Let_def)
        from persist_events [of env w st discordUserId accessToken refreshToken] p
        have "ev3 \<in> {[], [GetConnection]} \<or> (\<exists>q. ev3 = [GetConnection, Query q, Release])
              \<or> (\<exists>f l. ev3 = [AppendFile f l])"
          by simp
        then show ?thesis
          using ev Inr pair Some by auto
      qed
    qed
  qed
  then have "\<forall>token refreshToken. exchangeCode w params = Inr (JStr token, refreshToken) \<longrightarrow>
               filter is_profile_fetch ev = [ProfileFetch (''Bearer '' @ token)]"
    by (auto simp add: authorization_def)
  with main show ?thesis
    by blast
qed

theorem callback_calls_witness:
  "present (Some ''ABC'') \<and> env_set env_oauth ''REDIRECT_URI'' \<and> env_set env_oauth ''CLIENT_ID''
   \<and> env_set env_oauth ''CLIENT_SECRET''
   \<and> snd (snd (callback env_oauth world_ok (Some ''ABC'') state_on))
       = [TokenExchange [(''client_id'', ''1234''), (''client_secret'', ''s3cret''),
                         (''grant_type'', ''authorization_code''), (''code'', ''ABC''),
                         (''redirect_uri'', ''https://bot.example/callback'')],
          ProfileFetch ''Bearer T1'', GetConnection,
          Query (UpsertToken (Some ''U1'') (Some ''T1'') (Some ''R1'')), Release]
   \<and> exchangeCode world_ok (exchange_form (value_of (env_oauth ''CLIENT_ID''))
        (value_of (env_oauth ''CLIENT_SECRET'')) (value_of (Some ''ABC''))
        (value_of (env_oauth ''REDIRECT_URI''))) = Inr (JStr ''T1'', JStr ''R1'')
   \<and> filter is_profile_fetch (snd (snd (callback env_oauth world_ok (Some ''ABC'') state_on)))
       = [ProfileFetch ''Bearer T1'']
   \<and> distinct (snd (snd (callback env_oauth world_ok (Some ''ABC'') state_on)))"
proof -
  have h: "present (Some ''ABC'')" "env_set env_oauth ''REDIRECT_URI''"
    "env_set env_oauth ''CLIENT_ID''" "env_set env_oauth ''CLIENT_SECRET''"
    by (simp_all add: present_def env_set_def env_oauth_def)
  have e: "exchangeCode world_ok (exchange_form (value_of (env_oauth ''CLIENT_ID''))
        (value_of (env_oauth ''CLIENT_SECRET'')) (value_of (Some ''ABC''))
        (value_of (env_oauth ''REDIRECT_URI''))) = Inr (JStr ''T1'', JStr ''R1'')"
    by (simp add: exchangeCode_def world_ok_def)
  obtain rest where r: "snd (snd (callback env_oauth world_ok (Some ''ABC'') state_on))
      = TokenExchange (exchange_form (value_of (env_oauth ''CLIENT_ID''))
        (value_of (env_oauth ''CLIENT_SECRET'')) (value_of (Some ''ABC''))
        (value_of (env_oauth ''REDIRECT_URI''))) # rest"
    and f: "\<forall>token refreshToken.
             exchangeCode world_ok (exchange_form (value_of (env_oauth ''CLIENT_ID''))
               (value_of (env_oauth ''CLIENT_SECRET'')) (value_of (Some ''ABC''))
               (value_of (env_oauth ''REDIRECT_URI''))) = Inr (JStr token, refreshToken) \<longrightarrow>
             filter is_profile_fetch (snd (snd (callback env_oauth world_ok (Some ''ABC'') state_on)))
               = [ProfileFetch (''Bearer '' @ token)]"
    and d: "distinct (snd (snd (callback env_oauth world_ok (Some ''ABC'') state_on)))"
    using callback_calls [OF h refl refl, of world_ok state_on] by blast
  have "snd (snd (callback env_oauth world_ok (Some ''ABC'') state_on))
       = [TokenExchange [(''client_id'', ''1234''), (''client_secret'', ''s3cret''),
                         (''grant_type'', ''authorization_code''), (''code'', ''ABC''),
                         (''redirect_uri'', ''https://bot.example/callback'')],
          ProfileFetch ''Bearer T1'', GetConnection,
          Query (UpsertToken (Some ''U1'') (Some ''T1'') (Some ''R1'')), Release]"
    by (simp add: callback_def callback_try_def exchangeCode_def fetchProfile_def
        authorization_def persist_def upsertToken_def sql_upsert_def sql_param_def js_or_def
        too_long_def exchange_form_def present_def env_set_def env_oauth_def value_of_def world_ok_def state_on_def Let_def)
  then show ?thesis using h e f d by simp
qed

subsection \<open>One row per user\<close>

lemma update_row_user_id: "user_id (update_row now a r row) = user_id row"
  by (simp add: update_row_def)

lemma update_row_tokens:
  "access_token (update_row now a r row) = a \<and> refresh_token (update_row now a r row) = r"
  by (simp add: update_row_def)

lemma sql_upsert_user_ids:
  assumes "sql_upsert now u a r t = Inr t'"
  shows "\<exists>uid. u = Some uid
           \<and> map user_id (rows t') = (if uid \<in> set (map user_id (rows t))
                                        then map user_id (rows t)
                                        else map user_id (rows t) @ [uid])"
proof -
  have "map (user_id \<circ> (\<lambda>row. if user_id row = uid then update_row now acc r row else row)) xs
          = map user_id xs" for uid acc xs
    by (induction xs) (simp_all add: update_row_user_id)
  then show ?thesis
    using assms by (auto simp add: sql_upsert_def split: option.splits if_splits)
qed

lemma sql_upsert_unique:
  assumes "sql_upsert now u a r t = Inr t'" "distinct (map user_id (rows t))"
  shows "distinct (map user_id (rows t'))"
  using sql_upsert_user_ids [OF assms(1)] assms(2) by (auto split: if_splits)

lemma filter_unique:
  "distinct (map f xs) \<Longrightarrow> x \<in> set xs \<Longrightarrow> filter (\<lambda>y. f y = f x) xs = [x]"
proof (induction xs)
  case Nil
  then show ?case by simp
next
  case (Cons y ys)
  show ?case
  proof (cases "y = x")
    case True
    have "filter (\<lambda>z. f z = f x) ys = []"
      using Cons.prems True by (auto simp add: filter_empty_conv image_iff)
    then show ?thesis using True by simp
  next
    case False
    then have "x \<in> set ys" using Cons.prems by simp
    moreover have "f y \<noteq> f x" using Cons.prems \<open>x \<in> set ys\<close> by (auto simp add: image_iff)
    ultimately show ?thesis using Cons by simp
  qed
qed

lemma sql_upsert_stored:
  assumes "sql_upsert now u a r t = Inr t'"
  shows "\<exists>uid acc. u = Some uid \<and> a = Some acc
           \<and> (\<exists>row \<in> set (rows t'). user_id row = uid)
           \<and> (\<forall>row \<in> set (rows t'). user_id row = uid \<longrightarrow>
                 access_token row = acc \<and> refresh_token row = r)"
proof -
  from assms obtain uid acc where ua: "u = Some uid" "a = Some acc"
    by (auto simp add: sql_upsert_def split: option.splits)
  show ?thesis
  proof (cases "\<exists>row \<in> set (rows t). user_id row = uid")
    case True
    then have t': "rows t' = map (\<lambda>row. if user_id row = uid then update_row now acc r row
                                          else row) (rows t)"
      using assms ua by (auto simp add: sql_upsert_def split: if_splits)
    from True obtain row where "row \<in> set (rows t)" "user_id row = uid"
      by auto
    then have "update_row now acc r row \<in> set (rows t')"
      "user_id (update_row now acc r row) = uid"
      using t' by (auto simp add: update_row_user_id image_iff)
    moreover have "\<forall>row \<in> set (rows t'). user_id row = uid \<longrightarrow>
                 access_token row = acc \<and> refresh_token row = r"
    proof (intro ballI impI)
      fix x assume x: "x \<in> set (rows t')" "user_id x = uid"
      then obtain y where y: "y \<in> set (rows t)"
        "x = (if user_id y = uid then update_row now acc r y else y)"
        unfolding t' by (auto simp only: set_map image_iff)
      show "access_token x = acc \<and> refresh_token x = r"
      proof (cases "user_id y = uid")
        case True
        then show ?thesis using y(2) by (simp add: update_row_tokens)
      next
        case False
        then show ?thesis using y(2) x(2) by simp
      qed
    qed
    ultimately show ?thesis
      using ua by blast
  next
    case False
    then have "rows t' = rows t @ [\<lparr>row_id = next_id t, user_id = uid, access_token = acc,
                                     refresh_token = r, created_at = now\<rparr>]"
      using assms ua by (auto simp add: sql_upsert_def split: if_splits)
    then show ?thesis
      using ua False by auto
  qed
qed

lemma sql_param_str: "sql_param w (JStr s) = Some s"
  by (simp add: sql_param_def)

lemma js_or_str: "js_or (JStr s) (JStr []) = JStr s"
  by (simp add: js_or_def)

lemma sql_upsert_one_row:
  assumes "sql_upsert now (Some uid) (Some acc) r t = Inr t'" "distinct (map user_id (rows t))"
  shows "\<exists>row. filter (\<lambda>x. user_id x = uid) (rows t') = [row]
           \<and> access_token row = acc \<and> refresh_token row = r"
proof -
  from sql_upsert_stored [OF assms(1)] obtain row where
    row: "row \<in> set (rows t')" "user_id row = uid"
    and all: "\<forall>row \<in> set (rows t'). user_id row = uid \<longrightarrow>
                 access_token row = acc \<and> refresh_token row = r"
    by auto
  have "filter (\<lambda>x. user_id x = user_id row) (rows t') = [row]"
    using filter_unique [OF sql_upsert_unique [OF assms] row(1)] .
  then show ?thesis using row all by auto
qed

lemma upsertToken_True:
  assumes "upsertToken w st u a r = (True, st', ev)"
  shows "\<exists>t t'. database st = Some t \<and> st' = st\<lparr>database := Some t'\<rparr>
           \<and> sql_upsert (db_clock w) (sql_param w u) (sql_param w a)
                (sql_param w (js_or r (JStr []))) t = Inr t'"
  using assms
  by (auto simp add: upsertToken_def Let_def split: if_splits option.splits sum.splits)

lemma upsertToken_unique:
  "unique_user_id (database st) \<Longrightarrow> unique_user_id (database (fst (snd (upsertToken w st u a r))))"
  by (auto simp add: upsertToken_def Let_def unique_user_id_def sql_upsert_unique
      split: option.splits sum.splits)

lemma fileFallback_database: "database (fst (fileFallback env w st u a r)) = database st"
  by (simp add: fileFallback_def Let_def)

lemma persist_unique:
  "unique_user_id (database st) \<Longrightarrow> unique_user_id (database (fst (persist env w st u a r)))"
  by (simp add: persist_def upsertToken_unique fileFallback_database split: option.splits)

lemma callback_try_unique:
  "unique_user_id (database st) \<Longrightarrow>
     unique_user_id (database (fst (snd (callback_try env w st c r i s))))"
  by (auto simp add: callback_try_def Let_def split: sum.splits prod.splits)
     (metis fst_conv persist_unique)

lemma callback_unique:
  assumes "unique_user_id (database st)"
  shows "unique_user_id (database (fst (snd (callback env w code st))))"
proof -
  obtain res st' ev where
    t: "callback_try env w st (value_of code) (value_of (env ''REDIRECT_URI''))
          (value_of (env ''CLIENT_ID'')) (value_of (env ''CLIENT_SECRET'')) = (res, st', ev)"
    by (cases "callback_try env w st (value_of code) (value_of (env ''REDIRECT_URI''))
          (value_of (env ''CLIENT_ID'')) (value_of (env ''CLIENT_SECRET''))") auto
  have "unique_user_id (database st')"
    using callback_try_unique [OF assms, of env w "value_of code" "value_of (env ''REDIRECT_URI'')"
        "value_of (env ''CLIENT_ID'')" "value_of (env ''CLIENT_SECRET'')"] t by simp
  then show ?thesis
    using t assms by (simp add: callback_def split: sum.splits)
qed
lemma handle_unique:
  "unique_user_id (database st) \<Longrightarrow> unique_user_id (database (fst (snd (handle env w req st))))"
  by (cases req) (simp_all add: root_def callback_unique check_state)

lemma serve_unique:
  "unique_user_id (database st) \<Longrightarrow> unique_user_id (database (serve env reqs st))"
  by (induction reqs arbitrary: st) (auto simp: handle_unique)

lemma boot_unique:
  "unique_user_id db \<Longrightarrow> unique_user_id (database (fst (boot env w db log)))"
  by (auto simp add: boot_def createDbPool_def initDatabase_def Let_def unique_user_id_def
      sql_create_def split: option.splits)

text \<open>
  C6. From a table that meets its \<^verbatim>\<open>UNIQUE\<close> constraint, two upserts for the same
  user that both succeed, first with \<open>a1\<close>, \<open>r1\<close> and then with \<open>a2\<close>, \<open>r2\<close>,
  leave exactly one row for the user, holding \<open>a2\<close> and \<open>r2\<close>. And the table never
  holds two rows with one \<^verbatim>\<open>user_id\<close>: the constraint holds after the start of the
  module and after every sequence of requests.
\<close>

theorem upsert_one_record:
  "(unique_user_id (database st)
      \<and> upsertToken w1 st (JStr u) (JStr a1) (JStr r1) = (True, st1, ev1)
      \<and> upsertToken w2 st1 (JStr u) (JStr a2) (JStr r2) = (True, st2, ev2) \<longrightarrow>
        (\<exists>t row. database st2 = Some t
           \<and> filter (\<lambda>x. user_id x = u) (rows t) = [row]
           \<and> access_token row = a2 \<and> refresh_token row = Some r2))
   \<and> (unique_user_id db \<longrightarrow>
        unique_user_id (database (serve env reqs (fst (boot env w db log)))))"
proof (intro conjI impI)
  assume h: "unique_user_id (database st)
      \<and> upsertToken w1 st (JStr u) (JStr a1) (JStr r1) = (True, st1, ev1)
      \<and> upsertToken w2 st1 (JStr u) (JStr a2) (JStr r2) = (True, st2, ev2)"
  have u1: "unique_user_id (database st1)"
    using upsertToken_unique [of st w1 "JStr u" "JStr a1" "JStr r1"] h by simp
  from upsertToken_True [of w2 st1 "JStr u" "JStr a2" "JStr r2" st2 ev2] h
  obtain t1 t2 where t: "database st1 = Some t1" "st2 = st1\<lparr>database := Some t2\<rparr>"
    "sql_upsert (db_clock w2) (Some u) (Some a2) (Some r2) t1 = Inr t2"
    by (auto simp add: sql_param_str js_or_str)
  have "distinct (map user_id (rows t1))"
    using u1 t(1) by (simp add: unique_user_id_def)
  from sql_upsert_one_row [OF t(3) this] t(2)
  show "\<exists>t row. database st2 = Some t
           \<and> filter (\<lambda>x. user_id x = u) (rows t) = [row]
           \<and> access_token row = a2 \<and> refresh_token row = Some r2"
    by auto
next
  assume "unique_user_id db"
  then show "unique_user_id (database (serve env reqs (fst (boot env w db log))))"
    by (simp add: serve_unique boot_unique)
qed

theorem upsert_one_record_witness:
  "unique_user_id (database state_on)
   \<and> upsertToken world_ok state_on (JStr ''U1'') (JStr ''T1'') (JStr ''R1'')
       = (True, state_u1,
          [GetConnection, Query (UpsertToken (Some ''U1'') (Some ''T1'') (Some ''R1'')), Release])
   \<and> upsertToken world_again state_u1 (JStr ''U1'') (JStr ''T2'') (JStr ''R2'')
       = (True, state_u1_again,
          [GetConnection, Query (UpsertToken (Some ''U1'') (Some ''T2'') (Some ''R2'')), Release])
   \<and> (\<exists>t row. database state_u1_again = Some t
         \<and> filter (\<lambda>x. user_id x = ''U1'') (rows t) = [row]
         \<and> access_token row = ''T2'' \<and> refresh_token row = Some ''R2'')
   \<and> unique_user_id None
   \<and> unique_user_id (database (serve env_db [(world_ok, GetCallback (Some ''ABC'')),
                                              (world_again, GetCallback (Some ''DEF''))]
                                   (fst (boot env_db world_ok None None))))"
proof -
  have u: "unique_user_id (database state_on)" "unique_user_id None"
    by (simp_all add: unique_user_id_def state_on_def)
  have a: "upsertToken world_ok state_on (JStr ''U1'') (JStr ''T1'') (JStr ''R1'')
       = (True, state_u1,
          [GetConnection, Query (UpsertToken (Some ''U1'') (Some ''T1'') (Some ''R1'')), Release])"
    by (simp add: upsertToken_def sql_upsert_def sql_param_def js_or_def too_long_def
        world_ok_def state_on_def state_u1_def Let_def)
  have b: "upsertToken world_again state_u1 (JStr ''U1'') (JStr ''T2'') (JStr ''R2'')
       = (True, state_u1_again,
          [GetConnection, Query (UpsertToken (Some ''U1'') (Some ''T2'') (Some ''R2'')), Release])"
    by (simp add: upsertToken_def sql_upsert_def sql_param_def js_or_def too_long_def
        update_row_def world_again_def world_ok_def state_on_def state_u1_def
        state_u1_again_def Let_def)
  show ?thesis
    using u a b
      upsert_one_record [where st = state_on and ?w1.0 = world_ok and u = "''U1''"
        and ?a1.0 = "''T1''" and ?r1.0 = "''R1''" and ?st1.0 = state_u1
        and ?ev1.0 = "[GetConnection, Query (UpsertToken (Some ''U1'') (Some ''T1'') (Some ''R1'')),
                       Release]"
        and ?w2.0 = world_again and ?a2.0 = "''T2''" and ?r2.0 = "''R2''"
        and ?st2.0 = state_u1_again
        and ?ev2.0 = "[GetConnection, Query (UpsertToken (Some ''U1'') (Some ''T2'') (Some ''R2'')),
                       Release]"
        and db = None and env = env_db and w = world_ok and log = None
        and reqs = "[(world_ok, GetCallback (Some ''ABC'')),
                     (world_again, GetCallback (Some ''DEF''))]"]
    by simp
qed

subsection \<open>A token response without refresh token\<close>

text \<open>
  C9. When the exchange succeeds with a response that has no \<^verbatim>\<open>refresh_token\<close>
  field and the upsert of the request succeeds, the row stored for the user holds the
  empty string as its \<^verbatim>\<open>refresh_token\<close>.
\<close>

theorem omitted_refresh_token_stored_empty:
  assumes "present code" "env_set env ''REDIRECT_URI''" "env_set env ''CLIENT_ID''"
    "env_set env ''CLIENT_SECRET''"
    "token_endpoint w (exchange_form (value_of (env ''CLIENT_ID''))
        (value_of (env ''CLIENT_SECRET'')) (value_of code) (value_of (env ''REDIRECT_URI'')))
       = Inr (JObj props)"
    "map_of props ''refresh_token'' = None"
    "js_get (JObj props) ''access_token'' = Inr accessToken"
    "fetchProfile w accessToken = Inr discordUserId"
    "dbPool st = Some pool"
    "upsertToken w st discordUserId accessToken JUndefined = (True, st', ev)"
  shows "fst (snd (callback env w code st)) = st'
         \<and> (\<exists>t uid. database st' = Some t \<and> sql_param w discordUserId = Some uid
               \<and> (\<exists>row \<in> set (rows t). user_id row = uid)
               \<and> (\<forall>row \<in> set (rows t). user_id row = uid \<longrightarrow> refresh_token row = Some []))"
proof -
  have e: "exchangeCode w (exchange_form (value_of (env ''CLIENT_ID''))
        (value_of (env ''CLIENT_SECRET'')) (value_of code) (value_of (env ''REDIRECT_URI'')))
       = Inr (accessToken, JUndefined)"
    using assms(5,6,7) by (simp add: exchangeCode_def)
  have c: "fst (snd (callback env w code st)) = st'"
    using assms(1-4,8-10) e
    by (simp add: callback_def callback_try_def persist_def Let_def split: prod.splits)
  from upsertToken_True [OF assms(10)] obtain t t' where
    t: "database st = Some t" "st' = st\<lparr>database := Some t'\<rparr>"
    "sql_upsert (db_clock w) (sql_param w discordUserId) (sql_param w accessToken)
       (Some []) t = Inr t'"
    by (auto simp add: js_or_def sql_param_str)
  from sql_upsert_stored [OF t(3)] t(2) c show ?thesis
    by auto
qed

theorem omitted_refresh_token_stored_empty_witness:
  "present (Some ''ABC'') \<and> env_set env_oauth ''REDIRECT_URI'' \<and> env_set env_oauth ''CLIENT_ID''
   \<and> env_set env_oauth ''CLIENT_SECRET''
   \<and> token_endpoint world_no_refresh (exchange_form (value_of (env_oauth ''CLIENT_ID''))
        (value_of (env_oauth ''CLIENT_SECRET'')) (value_of (Some ''ABC''))
        (value_of (env_oauth ''REDIRECT_URI''))) = Inr (JObj [(''access_token'', JStr ''T3'')])
   \<and> map_of [(''access_token'', JStr ''T3'')] ''refresh_token'' = None
   \<and> fetchProfile world_no_refresh (JStr ''T3'') = Inr (JStr ''U1'')
   \<and> dbPool state_on = Some pool_db
   \<and> upsertToken world_no_refresh state_on (JStr ''U1'') (JStr ''T3'') JUndefined
       = (True,
          state_on\<lparr>database :=
            Some \<lparr>rows = [\<lparr>row_id = 1, user_id = ''U1'', access_token = ''T3'',
                            refresh_token = Some [], created_at = 7\<rparr>], next_id = 2\<rparr>\<rparr>,
          [GetConnection, Query (UpsertToken (Some ''U1'') (Some ''T3'') (Some [])), Release])
   \<and> fst (snd (callback env_oauth world_no_refresh (Some ''ABC'') state_on))
       = state_on\<lparr>database :=
            Some \<lparr>rows = [\<lparr>row_id = 1, user_id = ''U1'', access_token = ''T3'',
                            refresh_token = Some [], created_at = 7\<rparr>], next_id = 2\<rparr>\<rparr>"
proof -
  have h: "present (Some ''ABC'')" "env_set env_oauth ''REDIRECT_URI''"
    "env_set env_oauth ''CLIENT_ID''" "env_set env_oauth ''CLIENT_SECRET''"
    by (simp_all add: present_def env_set_def env_oauth_def)
  have t: "token_endpoint world_no_refresh (exchange_form (value_of (env_oauth ''CLIENT_ID''))
        (value_of (env_oauth ''CLIENT_SECRET'')) (value_of (Some ''ABC''))
        (value_of (env_oauth ''REDIRECT_URI''))) = Inr (JObj [(''access_token'', JStr ''T3'')])"
    by (simp add: world_no_refresh_def)
  have m: "map_of [(''access_token'', JStr ''T3'')] ''refresh_token'' = None"
    by simp
  have g: "js_get (JObj [(''access_token'', JStr ''T3'')]) ''access_token'' = Inr (JStr ''T3'')"
    by simp
  have p: "fetchProfile world_no_refresh (JStr ''T3'') = Inr (JStr ''U1'')"
    by (simp add: fetchProfile_def authorization_def world_no_refresh_def world_ok_def)
  have d: "dbPool state_on = Some pool_db"
    by (simp add: state_on_def)
  have u: "upsertToken world_no_refresh state_on (JStr ''U1'') (JStr ''T3'') JUndefined
       = (True,
          state_on\<lparr>database :=
            Some \<lparr>rows = [\<lparr>row_id = 1, user_id = ''U1'', access_token = ''T3'',
                            refresh_token = Some [], created_at = 7\<rparr>], next_id = 2\<rparr>\<rparr>,
          [GetConnection, Query (UpsertToken (Some ''U1'') (Some ''T3'') (Some [])), Release])"
    by (simp add: upsertToken_def sql_upsert_def sql_param_def js_or_def too_long_def
        world_no_refresh_def world_ok_def state_on_def Let_def)
  show ?thesis
    using h t m p d u omitted_refresh_token_stored_empty [OF h t m g p d u] by simp
qed

text \<open>
  The line of the file fallback is another record: there an absent refresh token is
  written \<^verbatim>\<open>null\<close>.
\<close>

lemma fallback_without_refresh_token:
  "fallback_record w discordUserId accessToken JUndefined
     = JObj [(''created_at'', JStr (clock_iso w)), (''user_id'', discordUserId),
             (''access_token'', accessToken), (''refresh_token'', JNull)]"
  by (simp add: fallback_record_def js_or_def)

subsection \<open>The file fallback\<close>

lemma hex_digit_is_hex: "is_hex (hex_digit n)"
proof -
  have "n mod 16 < length ''0123456789abcdef''" by simp
  from nth_mem [OF this] show ?thesis
    by (simp add: hex_digit_def is_hex_def) blast
qed

lemma is_hex_zero: "is_hex CHR ''0''"
  by (simp add: is_hex_def)

lemma json_chars_escape: "json_chars (json_escape c @ rest) = json_chars rest"
  by (simp add: json_escape_def hex_digit_is_hex is_hex_zero)

lemma json_chars_concat: "json_chars (concat (map json_escape s) @ rest) = json_chars rest"
  by (induction s) (simp_all add: json_chars_escape)

lemma json_chars_quote: "\<exists>k. json_quote s = [CHR 0x22] @ k @ [CHR 0x22] \<and> json_chars k"
  using json_chars_concat [of s "[]"] by (auto simp add: json_quote_def)

lemma digit_nth: "n < 10 \<Longrightarrow> is_digit (''0123456789'' ! n)"
proof -
  assume "n < 10"
  then have "n < length ''0123456789''" by simp
  from nth_mem [OF this] show ?thesis by (simp add: is_digit_def)
qed

lemma digit_nth_zero:
  assumes "n < 10" "''0123456789'' ! n = CHR ''0''"
  shows "n = 0"
proof -
  have "distinct ''0123456789''"
    by simp
  moreover have "n < length ''0123456789''" "0 < length ''0123456789''"
    using assms(1) by simp_all
  moreover have "''0123456789'' ! n = ''0123456789'' ! 0"
    using assms(2) by simp
  ultimately show ?thesis
    using nth_eq_iff_index_eq [of "''0123456789''" n 0] by blast
qed

lemma digits_int: "digits n \<noteq> [] \<and> list_all is_digit (digits n)
  \<and> (hd (digits n) = CHR ''0'' \<longrightarrow> n = 0)"
proof (induction n rule: digits.induct)
  case (1 n)
  show ?case
  proof (cases "n < 10")
    case True
    then show ?thesis
      using digit_nth [of n] digit_nth_zero [of n] by (simp add: digits.simps [of n])
  next
    case False
    then have "n div 10 \<noteq> 0" by simp
    with 1 False show ?thesis
      using digit_nth [of "n mod 10"] by (simp add: digits.simps [of n])
  qed
qed

lemma digits_zero: "digits 0 = ''0''"
  by (simp add: digits.simps [of 0])

lemma json_int_digits: "json_int (digits n)"
  using digits_int [of n] digits_zero by (auto simp add: json_int_def)

lemma json_number_show_int: "json_number (show_int i)"
proof (cases "i < 0")
  case True
  then show ?thesis by (simp add: show_int_def json_number_def json_int_digits)
next
  case False
  have "hd (digits (nat i)) \<noteq> CHR ''-''"
    using digits_int [of "nat i"] by (cases "digits (nat i)") (auto simp add: is_digit_def)
  then show ?thesis
    using False json_int_digits [of "nat i"] digits_int [of "nat i"]
    by (cases "digits (nat i)") (auto simp add: show_int_def json_number_def)
qed

lemma stringify_json_text:
  "(\<forall>s. JSON_stringify v = Some s \<longrightarrow> json_text s)"
  "(\<forall>x \<in> set (stringify_elems vs). json_text x)"
  "(\<forall>m \<in> set (stringify_props ps).
      \<exists>k v. m = [CHR 0x22] @ k @ [CHR 0x22] @ '':'' @ v \<and> json_chars k \<and> json_text v)"
proof (induction v and vs and ps rule: JSON_stringify_stringify_elems_stringify_props.induct)
  case (3 b)
  then show ?case by (auto intro: json_true json_false)
next
  case (4 n)
  then show ?case by (simp add: json_num json_number_show_int)
next
  case (5 s)
  then show ?case using json_chars_quote [of s] by (auto intro: json_string [simplified])
next
  case (6 vs)
  then show ?case by (auto intro: json_array [simplified])
next
  case (7 ps)
  then show ?case by (auto intro: json_object [simplified])
next
  case (9 v vs)
  then show ?case by (auto intro: json_null split: option.splits)
next
  case (11 k v ps)
  show ?case
  proof (cases "JSON_stringify v")
    case None
    then show ?thesis using 11 by simp
  next
    case (Some s)
    obtain k' where k': "json_quote k = [CHR 0x22] @ k' @ [CHR 0x22]" "json_chars k'"
      using json_chars_quote [of k] by blast
    have "json_text s" using 11 Some by simp
    then have "\<exists>k'' v'. json_quote k @ '':'' @ s = [CHR 0x22] @ k'' @ [CHR 0x22] @ '':'' @ v'
                 \<and> json_chars k'' \<and> json_text v'"
      using k' by auto
    then show ?thesis using 11 Some by simp
  qed
qed (auto intro: json_null)


lemma set_join: "set (join sep xs) \<subseteq> set sep \<union> \<Union> (set ` set xs)"
  by (induction sep xs rule: join.induct) auto

lemma is_hex_printable: "is_hex c \<Longrightarrow> 32 \<le> (of_char c :: nat)"
  unfolding is_hex_def by (elim disjE | simp)+

lemma json_chars_printable: "json_chars s \<Longrightarrow> \<forall>c \<in> set s. 32 \<le> (of_char c :: nat)"
proof (induction s rule: json_chars.induct)
  case 1
  then show ?case by simp
next
  case (2 c cs)
  show ?case
  proof (cases "c = CHR 0x5C")
    case False
    then have "json_chars cs" "32 \<le> (of_char c :: nat)"
      using "2.prems" by simp_all
    then show ?thesis using "2.IH"(3) [OF False] by simp
  next
    case True
    then obtain e cs' where cs: "cs = e # cs'"
      using "2.prems" by (cases cs) auto
    show ?thesis
    proof (cases "e \<in> set [CHR 0x22, CHR 0x5C, CHR ''/'', CHR ''b'', CHR ''f'', CHR ''n'',
                            CHR ''r'', CHR ''t'']")
      case e: True
      then have "json_chars cs'"
        using "2.prems" True cs by simp
      then have "\<forall>c \<in> set cs'. 32 \<le> (of_char c :: nat)"
        using "2.IH"(1) [OF True cs e] by simp
      moreover have "32 \<le> (of_char e :: nat)"
        using e by auto
      ultimately show ?thesis using True cs by simp
    next
      case e: False
      then have u: "e = CHR ''u''" "list_all is_hex (take 4 cs')" "json_chars (drop 4 cs')"
        using "2.prems" True cs by simp_all
      have "\<forall>c \<in> set (drop 4 cs'). 32 \<le> (of_char c :: nat)"
        using "2.IH"(2) [OF True cs e] u(3) by simp
      moreover have "\<forall>c \<in> set (take 4 cs'). 32 \<le> (of_char c :: nat)"
        using u(2) is_hex_printable unfolding list_all_iff by blast
      moreover have "set cs' = set (take 4 cs') \<union> set (drop 4 cs')"
        by (metis append_take_drop_id set_append)
      ultimately have "\<forall>c \<in> set cs'. 32 \<le> (of_char c :: nat)"
        by blast
      then show ?thesis using True cs u(1) by simp
    qed
  qed
qed

lemma is_digit_printable: "is_digit c \<Longrightarrow> 32 \<le> (of_char c :: nat)"
  unfolding is_digit_def by (elim disjE | simp)+

lemma json_int_printable: "json_int s \<Longrightarrow> \<forall>c \<in> set s. 32 \<le> (of_char c :: nat)"
  using is_digit_printable unfolding json_int_def list_all_iff by blast

lemma json_number_printable: "json_number s \<Longrightarrow> \<forall>c \<in> set s. 32 \<le> (of_char c :: nat)"
proof (cases s)
  case Nil
  then show ?thesis by simp
next
  case (Cons c ds)
  assume n: "json_number s"
  show ?thesis
  proof (cases "c = CHR ''-''")
    case True
    then have "json_int ds" using n Cons by (simp add: json_number_def)
    then show ?thesis using json_int_printable [of ds] Cons True by simp
  next
    case False
    then have "json_int s" using n Cons by (simp add: json_number_def)
    then show ?thesis by (rule json_int_printable)
  qed
qed

lemma json_text_printable: "json_text s \<Longrightarrow> \<forall>c \<in> set s. 32 \<le> (of_char c :: nat)"
proof (induction rule: json_text.induct)
  case (json_num s)
  then show ?case by (rule json_number_printable)
next
  case (json_string s)
  then show ?case using json_chars_printable [of s] by auto
next
  case (json_array xs)
  then show ?case using set_join [of "'',''" xs] by auto
next
  case (json_object ms)
  have "\<forall>m \<in> set ms. \<forall>c \<in> set m. 32 \<le> (of_char c :: nat)"
  proof
    fix m assume "m \<in> set ms"
    then obtain k v where m: "m = [CHR 0x22] @ k @ [CHR 0x22] @ '':'' @ v" "json_chars k"
      "\<forall>c \<in> set v. 32 \<le> (of_char c :: nat)"
      using json_object by blast
    then show "\<forall>c \<in> set m. 32 \<le> (of_char c :: nat)"
      using json_chars_printable [of k] by auto
  qed
  then show ?case using set_join [of "'',''" ms] by auto
qed simp_all

lemma json_text_one_line: "json_text s \<Longrightarrow> CHR 0x0A \<notin> set s"
  using json_text_printable [of s] by auto

lemma stringify_None: "JSON_stringify v = None \<longleftrightarrow> v = JUndefined"
  by (cases v) simp_all

text \<open>
  C5. Let a \<^verbatim>\<open>/callback\<close> request succeed at the provider while there is no pool.
  The answer is the 200 page in every case. With \<^verbatim>\<open>FILE_FALLBACK=true\<close> the
  handler makes one append to \<^verbatim>\<open>tokens.log\<close>, of
  \<^verbatim>\<open>JSON.stringify(record)\<close> followed by a newline: the text is well-formed JSON
  and contains no newline, so one line is appended; when the write fails the file is
  unchanged (and the answer is the same). When the provider returned an access token and
  a user id, the line is an object with the four fields \<^verbatim>\<open>created_at\<close>,
  \<^verbatim>\<open>user_id\<close>, \<^verbatim>\<open>access_token\<close>, \<^verbatim>\<open>refresh_token\<close>. When
  \<^verbatim>\<open>FILE_FALLBACK\<close> is unset, or anything but \<^verbatim>\<open>'true'\<close>, nothing is
  appended and no write is attempted.
\<close>

theorem file_fallback_line:
  assumes "dbPool st = None" "present code" "env_set env ''REDIRECT_URI''"
    "env_set env ''CLIENT_ID''" "env_set env ''CLIENT_SECRET''"
    "params = exchange_form (value_of (env ''CLIENT_ID'')) (value_of (env ''CLIENT_SECRET''))
        (value_of code) (value_of (env ''REDIRECT_URI''))"
    "exchangeCode w params = Inr (accessToken, refreshToken)"
    "fetchProfile w accessToken = Inr discordUserId"
    "entry = fallback_record w discordUserId accessToken refreshToken"
    "old = (case tokens_log st of None \<Rightarrow> [] | Some s \<Rightarrow> s)"
    "result = callback env w code st"
  shows "\<exists>header. authorization accessToken = Some header
    \<and> fst result = \<lparr>status = 200, content = Text html_authorized\<rparr>
    \<and> (env ''FILE_FALLBACK'' = Some ''true'' \<longrightarrow>
         (\<exists>line. JSON_stringify entry = Some line \<and> json_text line \<and> CHR 0x0A \<notin> set line
            \<and> snd (snd result) = [TokenExchange params, ProfileFetch header,
                                   AppendFile ''tokens.log'' (line @ [CHR 0x0A])]
            \<and> tokens_log (fst (snd result))
                = (if fs_append_ok w then Some (old @ line @ [CHR 0x0A]) else tokens_log st)))
    \<and> (accessToken \<noteq> JUndefined \<and> discordUserId \<noteq> JUndefined \<longrightarrow>
         JSON_stringify entry
           = Some (''{'' @ json_quote ''created_at'' @ '':'' @ json_quote (clock_iso w)
                   @ '','' @ json_quote ''user_id'' @ '':'' @ to_text (JSON_stringify discordUserId)
                   @ '','' @ json_quote ''access_token'' @ '':''
                   @ to_text (JSON_stringify accessToken)
                   @ '','' @ json_quote ''refresh_token'' @ '':''
                   @ to_text (JSON_stringify (js_or refreshToken JNull)) @ ''}''))
    \<and> (env ''FILE_FALLBACK'' \<noteq> Some ''true'' \<longrightarrow>
         tokens_log (fst (snd result)) = tokens_log st
         \<and> snd (snd result) = [TokenExchange params, ProfileFetch header])"
proof -
  obtain line where line: "JSON_stringify entry = Some line"
    using assms(9) by (simp add: fallback_record_def)
  then have jt: "json_text line"
    using stringify_json_text(1) [of entry] by simp
  have nl: "CHR 0x0A \<notin> set line"
    using json_text_one_line [OF jt] .
  obtain header where header: "authorization accessToken = Some header"
    using assms(8) by (cases "authorization accessToken") (simp_all add: fetchProfile_def)
  have r: "result = (send 200 html_authorized,
                     fst (fileFallback env w st discordUserId accessToken refreshToken),
                     [TokenExchange params, ProfileFetch header]
                     @ snd (fileFallback env w st discordUserId accessToken refreshToken))"
    using assms(1-8,11) header
    by (simp add: callback_def callback_try_def persist_def Let_def split: prod.splits)
  have a: "fst result = \<lparr>status = 200, content = Text html_authorized\<rparr>"
    using r by (simp add: send_def)
  have b: "env ''FILE_FALLBACK'' = Some ''true'' \<Longrightarrow>
         snd (snd result) = [TokenExchange params, ProfileFetch header,
                                   AppendFile ''tokens.log'' (line @ [CHR 0x0A])]
         \<and> tokens_log (fst (snd result))
                = (if fs_append_ok w then Some (old @ line @ [CHR 0x0A]) else tokens_log st)"
    using r line assms(9,10) by (simp add: fileFallback_def Let_def to_text_def)
  have c: "env ''FILE_FALLBACK'' \<noteq> Some ''true'' \<Longrightarrow>
         tokens_log (fst (snd result)) = tokens_log st
         \<and> snd (snd result) = [TokenExchange params, ProfileFetch header]"
    using r by (simp add: fileFallback_def)
  have "js_or refreshToken JNull \<noteq> JUndefined"
    by (cases refreshToken) (simp_all add: js_or_def)
  then obtain rs where rs: "JSON_stringify (js_or refreshToken JNull) = Some rs"
    using stringify_None [of "js_or refreshToken JNull"] by auto
  have d: "accessToken \<noteq> JUndefined \<and> discordUserId \<noteq> JUndefined \<Longrightarrow>
         JSON_stringify entry
           = Some (''{'' @ json_quote ''created_at'' @ '':'' @ json_quote (clock_iso w)
                   @ '','' @ json_quote ''user_id'' @ '':'' @ to_text (JSON_stringify discordUserId)
                   @ '','' @ json_quote ''access_token'' @ '':''
                   @ to_text (JSON_stringify accessToken)
                   @ '','' @ json_quote ''refresh_token'' @ '':''
                   @ to_text (JSON_stringify (js_or refreshToken JNull)) @ ''}'')"
  proof -
    assume "accessToken \<noteq> JUndefined \<and> discordUserId \<noteq> JUndefined"
    then obtain as us where "JSON_stringify accessToken = Some as"
      "JSON_stringify discordUserId = Some us"
      using stringify_None [of accessToken] stringify_None [of discordUserId] by auto
    then show ?thesis
      using rs assms(9) by (simp add: fallback_record_def to_text_def)
  qed
  show ?thesis
    using header a b c d line jt nl by blast
qed

theorem file_fallback_line_witness:
  "dbPool state_off = None \<and> present (Some ''ABC'') \<and> env_set env_fallback ''REDIRECT_URI''
   \<and> env_set env_fallback ''CLIENT_ID'' \<and> env_set env_fallback ''CLIENT_SECRET''
   \<and> exchangeCode world_ok (exchange_form ''1234'' ''s3cret'' ''ABC''
         ''https://bot.example/callback'') = Inr (JStr ''T1'', JStr ''R1'')
   \<and> fetchProfile world_ok (JStr ''T1'') = Inr (JStr ''U1'')
   \<and> env_fallback ''FILE_FALLBACK'' = Some ''true''
   \<and> JStr ''T1'' \<noteq> JUndefined \<and> JStr ''U1'' \<noteq> JUndefined
   \<and> fst (callback env_fallback world_ok (Some ''ABC'') state_off)
       = \<lparr>status = 200, content = Text html_authorized\<rparr>
   \<and> tokens_log (fst (snd (callback env_fallback world_ok (Some ''ABC'') state_off)))
       = Some line_u1
   \<and> fst (callback env_fallback world_disk_full (Some ''ABC'') state_off)
       = \<lparr>status = 200, content = Text html_authorized\<rparr>
   \<and> tokens_log (fst (snd (callback env_fallback world_disk_full (Some ''ABC'') state_off)))
       = None
   \<and> env_oauth ''FILE_FALLBACK'' \<noteq> Some ''true''
   \<and> tokens_log (fst (snd (callback env_oauth world_ok (Some ''ABC'') state_off))) = None"
proof -
  have d: "dbPool state_off = None"
    by (simp add: state_off_def)
  have h: "present (Some ''ABC'')" "env_set env_fallback ''REDIRECT_URI''"
    "env_set env_fallback ''CLIENT_ID''" "env_set env_fallback ''CLIENT_SECRET''"
    by (simp_all add: present_def env_set_def env_fallback_def env_oauth_def)
  have h': "env_set env_oauth ''REDIRECT_URI''"
    "env_set env_oauth ''CLIENT_ID''" "env_set env_oauth ''CLIENT_SECRET''"
    by (simp_all add: env_set_def env_oauth_def)
  have p: "exchange_form ''1234'' ''s3cret'' ''ABC'' ''https://bot.example/callback''
      = exchange_form (value_of (env_fallback ''CLIENT_ID''))
          (value_of (env_fallback ''CLIENT_SECRET'')) (value_of (Some ''ABC''))
          (value_of (env_fallback ''REDIRECT_URI''))"
    "exchange_form ''1234'' ''s3cret'' ''ABC'' ''https://bot.example/callback''
      = exchange_form (value_of (env_oauth ''CLIENT_ID''))
          (value_of (env_oauth ''CLIENT_SECRET'')) (value_of (Some ''ABC''))
          (value_of (env_oauth ''REDIRECT_URI''))"
    by (simp_all add: env_fallback_def env_oauth_def value_of_def)
  have e: "exchangeCode world_ok (exchange_form ''1234'' ''s3cret'' ''ABC''
         ''https://bot.example/callback'') = Inr (JStr ''T1'', JStr ''R1'')"
    "exchangeCode world_disk_full (exchange_form ''1234'' ''s3cret'' ''ABC''
         ''https://bot.example/callback'') = Inr (JStr ''T1'', JStr ''R1'')"
    by (simp_all add: exchangeCode_def world_ok_def world_disk_full_def)
  have f: "fetchProfile world_ok (JStr ''T1'') = Inr (JStr ''U1'')"
    "fetchProfile world_disk_full (JStr ''T1'') = Inr (JStr ''U1'')"
    by (simp_all add: fetchProfile_def authorization_def world_ok_def world_disk_full_def)
  have s: "JSON_stringify (fallback_record world_ok (JStr ''U1'') (JStr ''T1'') (JStr ''R1''))
             = Some (butlast line_u1)" "line_u1 = butlast line_u1 @ [CHR 0x0A]"
    by (simp_all add: fallback_record_def json_quote_def json_escape_def js_or_def world_ok_def
        line_u1_def)
  have v: "env_fallback ''FILE_FALLBACK'' = Some ''true''"
    "env_oauth ''FILE_FALLBACK'' \<noteq> Some ''true''"
    "fs_append_ok world_ok" "\<not> fs_append_ok world_disk_full" "tokens_log state_off = None"
    by (simp_all add: env_fallback_def env_oauth_def world_ok_def world_disk_full_def
        state_off_def)
  show ?thesis
    using d h e(1) f(1) v s
      file_fallback_line [OF d h p(1) e(1) f(1) refl refl refl]
      file_fallback_line [OF d h p(1) e(2) f(2) refl refl refl]
      file_fallback_line [OF d h(1) h' p(2) e(1) f(1) refl refl refl]
    by auto
qed

end
